theory Spec2Isabelle
  imports Main "HOL-Library.Word"
begin

unbundle bit_operations_syntax

section \<open>Shared vocabulary of the two probe utilities\<close>

text \<open>
  The repository holds two single-shot probes: \<^verbatim>\<open>widget/gtk/v4l2test/v4l2test.cpp\<close>
  (a V4L2 memory-to-memory device, queried through \<^verbatim>\<open>ioctl\<close>) and
  \<^verbatim>\<open>widget/gtk/mpptest/mpptest.cpp\<close> (the Rockchip MPP library, bound through
  \<^verbatim>\<open>dlsym\<close>). Each is embedded as a function from the behaviour of its environment
  (what the device or the library answers) to the exit status and the sequence of
  externally visible calls the program makes. Calls to \<^verbatim>\<open>log\<close> write to stderr only
  and are left out of the sequence.
\<close>

type_synonym c_int = int
type_synonym u32 = "32 word"

text \<open>The \<^verbatim>\<open>HwAccelCodec\<close> enumeration, identical in both files.\<close>

definition CODEC_HW_H264 :: c_int where "CODEC_HW_H264 = push_bit 4 1"
definition CODEC_HW_VP8 :: c_int where "CODEC_HW_VP8 = push_bit 5 1"
definition CODEC_HW_VP9 :: c_int where "CODEC_HW_VP9 = push_bit 6 1"
definition CODEC_HW_AV1 :: c_int where "CODEC_HW_AV1 = push_bit 7 1"

text \<open>\<^verbatim>\<open>EXIT_SUCCESS\<close> and \<^verbatim>\<open>EXIT_FAILURE\<close> of \<^verbatim>\<open>cstdlib\<close>.\<close>

definition EXIT_SUCCESS :: c_int where "EXIT_SUCCESS = 0"
definition EXIT_FAILURE :: c_int where "EXIT_FAILURE = 1"

text \<open>The variadic arguments handed to the printf-style reporting functions.\<close>

datatype arg = ArgStr string | ArgInt c_int

datatype MppCtxType = MPP_CTX_DEC | MPP_CTX_ENC

datatype MppCodingType =
  MPP_VIDEO_CodingAVC | MPP_VIDEO_CodingVP8 | MPP_VIDEO_CodingVP9 | MPP_VIDEO_CodingAV1

text \<open>
  The calls a probe makes on the world outside, in program order. Pointers
  (the library handle, an MPP context, an MPP operation table) are natural numbers
  with 0 for the null pointer.
\<close>

datatype event =
    SysOpen string
  | SysClose c_int
  | PrintUsage
  | RecordError string "arg list"
  | RecordValue string "arg list"
  | RecordFlush
  | DlOpen string
  | DlSym string
  | DlClose nat
  | CallCreate
  | CallCheck MppCtxType MppCodingType
  | CallInit nat MppCtxType MppCodingType
  | CallReset nat nat
  | CallDestroy nat

section \<open>v4l2test\<close>

subsection \<open>Constants of the kernel header\<close>

text \<open>
  \<^verbatim>\<open>linux/videodev2.h\<close> is not part of the repository; its constants are fixed by
  the kernel ABI. A pixel format is the little-endian four-character code.
\<close>

definition v4l2_fourcc :: "char \<Rightarrow> char \<Rightarrow> char \<Rightarrow> char \<Rightarrow> u32" where
  "v4l2_fourcc a b c d =
     of_char a OR push_bit 8 (of_char b) OR push_bit 16 (of_char c) OR push_bit 24 (of_char d)"

definition V4L2_PIX_FMT_H264 :: u32 where
  "V4L2_PIX_FMT_H264 = v4l2_fourcc (CHR ''H'') (CHR ''2'') (CHR ''6'') (CHR ''4'')"
definition V4L2_PIX_FMT_NV12 :: u32 where
  "V4L2_PIX_FMT_NV12 = v4l2_fourcc (CHR ''N'') (CHR ''V'') (CHR ''1'') (CHR ''2'')"
definition V4L2_PIX_FMT_YVU420 :: u32 where
  "V4L2_PIX_FMT_YVU420 = v4l2_fourcc (CHR ''Y'') (CHR ''V'') (CHR ''1'') (CHR ''2'')"

definition V4L2_BUF_TYPE_VIDEO_CAPTURE :: u32 where "V4L2_BUF_TYPE_VIDEO_CAPTURE = 1"
definition V4L2_BUF_TYPE_VIDEO_OUTPUT :: u32 where "V4L2_BUF_TYPE_VIDEO_OUTPUT = 2"
definition V4L2_BUF_TYPE_VIDEO_CAPTURE_MPLANE :: u32 where
  "V4L2_BUF_TYPE_VIDEO_CAPTURE_MPLANE = 9"
definition V4L2_BUF_TYPE_VIDEO_OUTPUT_MPLANE :: u32 where
  "V4L2_BUF_TYPE_VIDEO_OUTPUT_MPLANE = 10"

definition V4L2_CAP_VIDEO_M2M_MPLANE :: u32 where "V4L2_CAP_VIDEO_M2M_MPLANE = 0x00004000"
definition V4L2_CAP_VIDEO_M2M :: u32 where "V4L2_CAP_VIDEO_M2M = 0x00008000"
definition V4L2_CAP_STREAMING :: u32 where "V4L2_CAP_STREAMING = 0x04000000"
definition V4L2_CAP_DEVICE_CAPS :: u32 where "V4L2_CAP_DEVICE_CAPS = 0x80000000"

subsection \<open>The device as the program sees it\<close>

text \<open>
  What the system calls of one run answer: \<^verbatim>\<open>open\<close> returns a descriptor or a
  negative value (and then \<^verbatim>\<open>strerror(errno)\<close> is \<open>open_error\<close>);
  \<^verbatim>\<open>VIDIOC_QUERYCAP\<close> returns a status and fills the two capability words;
  \<^verbatim>\<open>VIDIOC_ENUM_FMT\<close> on queue type \<open>t\<close> at index \<open>i\<close> returns a status and
  leaves a pixel format in the descriptor.
\<close>

record v4l2_device =
  open_result :: c_int
  open_error :: string
  querycap_result :: c_int
  capabilities :: u32
  device_caps :: u32
  enum_fmt :: "u32 \<Rightarrow> u32 \<Rightarrow> c_int \<times> u32"

subsection \<open>\<^verbatim>\<open>v4l2_supported_fmts\<close>\<close>

text \<open>The \<^verbatim>\<open>switch (fmt.pixelformat)\<close> of the loop body, applied to the accumulator.\<close>

definition fmt_switch :: "c_int \<Rightarrow> u32 \<Rightarrow> c_int" where
  "fmt_switch supported pixelformat =
     (if pixelformat = V4L2_PIX_FMT_H264 then supported OR CODEC_HW_H264
      else if pixelformat = V4L2_PIX_FMT_NV12 then 1
      else if pixelformat = V4L2_PIX_FMT_YVU420 then 1
      else supported)"

text \<open>
  One iteration of \<^verbatim>\<open>for (fmt.index = 0;; fmt.index++)\<close>, entered with
  \<^verbatim>\<open>fmt.index\<close> = \<open>index\<close> and the accumulator \<open>supported\<close>. It either leaves the
  loop (\<open>Break\<close>, with the value \<open>supported\<close> has after \<^verbatim>\<open>supported = result\<close>) or
  reaches the next iteration (\<open>Continue\<close>, with the incremented index and the value
  the \<^verbatim>\<open>switch\<close> left in the accumulator). The index is a \<^verbatim>\<open>__u32\<close> and wraps.
\<close>

datatype loop_step = Break c_int | Continue u32 c_int

definition fmts_loop_body :: "v4l2_device \<Rightarrow> u32 \<Rightarrow> u32 \<Rightarrow> c_int \<Rightarrow> loop_step" where
  "fmts_loop_body dev aType index supported =
     (case enum_fmt dev aType index of
        (result, pixelformat) \<Rightarrow>
          if result < 0 then Break result
          else Continue (index + 1) (fmt_switch supported pixelformat))"

text \<open>
  The loop: the iterations one after the other, and \<^verbatim>\<open>return supported\<close> after the
  \<^verbatim>\<open>break\<close>. The loop has no bound of its own: it ends only when a query fails, so
  the model is a partial function and \<open>None\<close> stands for a run that never leaves the
  loop.
\<close>

partial_function (option) fmts_loop ::
  "v4l2_device \<Rightarrow> u32 \<Rightarrow> u32 \<Rightarrow> c_int \<Rightarrow> c_int option" where
  "fmts_loop dev aType index supported =
     (case fmts_loop_body dev aType index supported of
        Break supported' \<Rightarrow> Some supported'
      | Continue index' supported' \<Rightarrow> fmts_loop dev aType index' supported')"

definition v4l2_supported_fmts :: "v4l2_device \<Rightarrow> u32 \<Rightarrow> c_int option" where
  "v4l2_supported_fmts dev aType = fmts_loop dev aType 0 0"

subsection \<open>\<^verbatim>\<open>v4l2_check_device\<close>\<close>

text \<open>
  The scope-exit action registered at the top of the function runs at every
  return; it closes the descriptor when one was obtained.
\<close>

definition autoRelease :: "c_int \<Rightarrow> event list" where
  "autoRelease fd = (if 0 \<le> fd then [SysClose fd] else [])"

definition v4l2_check_device :: "v4l2_device \<Rightarrow> string \<Rightarrow> event list option" where
  "v4l2_check_device dev aVideoDevice =
     (let fd = open_result dev;
          splane = (device_caps dev AND V4L2_CAP_VIDEO_M2M \<noteq> 0);
          mplane = (device_caps dev AND V4L2_CAP_VIDEO_M2M_MPLANE \<noteq> 0)
      in
      if fd < 0 then
        Some ([SysOpen aVideoDevice,
               RecordError ''V4L2 failed to open device %s: %s''
                 [ArgStr aVideoDevice, ArgStr (open_error dev)]] @ autoRelease fd)
      else if querycap_result dev < 0 then
        Some ([SysOpen aVideoDevice,
               RecordError ''V4L2 device %s failed to query capabilities''
                 [ArgStr aVideoDevice]] @ autoRelease fd)
      else if capabilities dev AND V4L2_CAP_DEVICE_CAPS = 0 then
        Some ([SysOpen aVideoDevice,
               RecordError ''V4L2 device %s does not support DEVICE_CAPS''
                 [ArgStr aVideoDevice]] @ autoRelease fd)
      else if device_caps dev AND V4L2_CAP_STREAMING = 0 then
        Some ([SysOpen aVideoDevice,
               RecordError ''V4L2 device %s does not support V4L2_CAP_STREAMING''
                 [ArgStr aVideoDevice]] @ autoRelease fd)
      else if \<not> splane \<and> \<not> mplane then
        Some ([SysOpen aVideoDevice,
               RecordError ''V4L2 device %s does not support M2M modes''
                 [ArgStr aVideoDevice]] @ autoRelease fd)
      else
        (case v4l2_supported_fmts dev
                (if mplane then V4L2_BUF_TYPE_VIDEO_CAPTURE_MPLANE
                 else V4L2_BUF_TYPE_VIDEO_CAPTURE) of
           None \<Rightarrow> None
         | Some capture \<Rightarrow>
             if capture \<le> 0 then
               Some ([SysOpen aVideoDevice,
                      RecordError
                        ''V4L2 device %s does not support NV12 or YV12 capture formats''
                        [ArgStr aVideoDevice]] @ autoRelease fd)
             else
               (case v4l2_supported_fmts dev
                       (if mplane then V4L2_BUF_TYPE_VIDEO_OUTPUT_MPLANE
                        else V4L2_BUF_TYPE_VIDEO_OUTPUT) of
                  None \<Rightarrow> None
                | Some hwcodecs \<Rightarrow>
                    Some ([SysOpen aVideoDevice,
                           RecordValue ''SUPPORTED\<newline>TRUE\<newline>'' [],
                           RecordValue ''HWCODECS\<newline>%s\<newline>'' [ArgInt hwcodecs]]
                          @ autoRelease fd))))"

subsection \<open>\<^verbatim>\<open>main\<close> of v4l2test\<close>

text \<open>
  The option loop: \<open>opts\<close> are the successive answers of \<^verbatim>\<open>getopt_long\<close> (the
  option character and \<^verbatim>\<open>optarg\<close>) before it returns -1. Only \<^verbatim>\<open>'d'\<close> has an
  effect.
\<close>

fun parse_options :: "(char \<times> string) list \<Rightarrow> string option \<Rightarrow> string option" where
  "parse_options [] device = device"
| "parse_options ((c, optarg) # rest) device =
     (if c = CHR ''d'' then parse_options rest (Some optarg)
      else parse_options rest device)"

definition v4l2_main ::
  "(char \<times> string) list \<Rightarrow> v4l2_device \<Rightarrow> (c_int \<times> event list) option" where
  "v4l2_main opts dev =
     (case parse_options opts None of
        Some device \<Rightarrow>
          (case v4l2_check_device dev device of
             None \<Rightarrow> None
           | Some trace \<Rightarrow> Some (EXIT_SUCCESS, trace @ [RecordFlush]))
      | None \<Rightarrow> Some (0, [PrintUsage]))"

section \<open>mpptest\<close>

subsection \<open>The library as the program sees it\<close>

text \<open>
  What the dynamic loader and the library answer in one run: \<^verbatim>\<open>dlopen\<close> returns
  the handle (0 when loading fails), \<^verbatim>\<open>dlsym\<close> returns the address bound to a
  symbol name (0 when there is none). \<^verbatim>\<open>mpp_create\<close> only has out-parameters, so
  its answer is given per call: the loop calls it once in each iteration, and
  \<open>mpp_create lib i\<close> is the return value, the context and the operation table it
  stores in iteration \<open>i\<close>. The other two entry points answer by their arguments.
  \<open>reset_entry lib mpi\<close> is the function pointer the program reads from the
  \<^verbatim>\<open>reset\<close> slot of the table at \<open>mpi\<close>.
\<close>

record mpp_library =
  dlopen_result :: nat
  dlsym_result :: "string \<Rightarrow> nat"
  mpp_create :: "nat \<Rightarrow> c_int \<times> nat \<times> nat"
  mpp_check_support_format :: "MppCtxType \<Rightarrow> MppCodingType \<Rightarrow> c_int"
  mpp_init :: "nat \<Rightarrow> MppCtxType \<Rightarrow> MppCodingType \<Rightarrow> c_int"
  reset_entry :: "nat \<Rightarrow> nat"

definition hwaccels :: "c_int list" where
  "hwaccels = [CODEC_HW_H264, CODEC_HW_VP8, CODEC_HW_VP9, CODEC_HW_AV1]"

definition mppcodings :: "MppCodingType list" where
  "mppcodings =
     [MPP_VIDEO_CodingAVC, MPP_VIDEO_CodingVP8, MPP_VIDEO_CodingVP9, MPP_VIDEO_CodingAV1]"

subsection \<open>\<^verbatim>\<open>fail\<close>\<close>

text \<open>
  \<open>Mpp\<close> is the global library handle at the time of the call and \<open>trace\<close> the calls
  made so far; the result is the value \<^verbatim>\<open>main\<close> returns and the extended trace.
\<close>

definition fail :: "nat \<Rightarrow> string \<Rightarrow> event list \<Rightarrow> c_int \<times> event list" where
  "fail Mpp msg trace =
     (EXIT_FAILURE,
      trace @ [RecordValue ''ERROR\<newline>%s\<newline>'' [ArgStr msg]]
        @ (if Mpp \<noteq> 0 then [DlClose Mpp] else [])
        @ [RecordFlush])"

subsection \<open>The candidate loop of \<^verbatim>\<open>main\<close>\<close>

text \<open>
  The loop body calls \<^verbatim>\<open>mpi->reset(mppctx)\<close> without testing \<^verbatim>\<open>mpi\<close> or the
  slot. When \<^verbatim>\<open>mpp_create\<close> returned 0 and left the operation table null, or the
  \<^verbatim>\<open>reset\<close> slot of the table is null, that call goes through a null pointer and
  the process dies there: nothing after it runs.
\<close>

datatype fault = NullDereference

text \<open>
  One iteration of \<^verbatim>\<open>for (uint i = 0; i < 4; i++)\<close>: either the new value of
  \<open>supported\<close> (\<open>Inr\<close>) or the fault that ended the process (\<open>Inl\<close>), and the calls
  made. Each \<^verbatim>\<open>continue\<close> leaves \<open>supported\<close> as it was.
\<close>

definition mpp_loop_body ::
  "mpp_library \<Rightarrow> nat \<Rightarrow> c_int \<Rightarrow> (fault + c_int) \<times> event list" where
  "mpp_loop_body lib i supported =
     (case mpp_create lib i of
        (created, mppctx, mpi) \<Rightarrow>
          if created \<noteq> 0 then (Inr supported, [CallCreate])
          else if mpp_check_support_format lib MPP_CTX_DEC (mppcodings ! i) \<noteq> 0 then
            (Inr supported, [CallCreate, CallCheck MPP_CTX_DEC (mppcodings ! i)])
          else if mpp_init lib mppctx MPP_CTX_DEC (mppcodings ! i) \<noteq> 0 then
            (Inr supported,
             [CallCreate, CallCheck MPP_CTX_DEC (mppcodings ! i),
              CallInit mppctx MPP_CTX_DEC (mppcodings ! i)])
          else if mpi = 0 \<or> reset_entry lib mpi = 0 then
            (Inl NullDereference,
             [CallCreate, CallCheck MPP_CTX_DEC (mppcodings ! i),
              CallInit mppctx MPP_CTX_DEC (mppcodings ! i)])
          else
            (Inr (supported OR hwaccels ! i),
             [CallCreate, CallCheck MPP_CTX_DEC (mppcodings ! i),
              CallInit mppctx MPP_CTX_DEC (mppcodings ! i),
              CallReset mpi mppctx, CallDestroy mppctx]))"

text \<open>
  The loop from index \<open>i\<close>, with \<open>trace\<close> the calls made so far: the value of
  \<open>supported\<close> after the last iteration, or the fault that ended the process in
  some iteration, and the calls made up to there.
\<close>

function mpp_loop ::
  "mpp_library \<Rightarrow> nat \<Rightarrow> c_int \<Rightarrow> event list \<Rightarrow> (fault + c_int) \<times> event list" where
  "mpp_loop lib i supported trace =
     (if i < length mppcodings then
        (case mpp_loop_body lib i supported of
           (Inl crashed, calls) \<Rightarrow> (Inl crashed, trace @ calls)
         | (Inr supported', calls) \<Rightarrow> mpp_loop lib (i + 1) supported' (trace @ calls))
      else (Inr supported, trace))"
  by pat_completeness auto
termination
  by (relation "measure (\<lambda>(lib, i, supported, trace). length mppcodings - i)") auto

subsection \<open>\<^verbatim>\<open>main\<close> of mpptest\<close>

text \<open>
  The result is the exit status \<^verbatim>\<open>main\<close> returns (\<open>Inr\<close>), or the fault that ended
  the process before \<^verbatim>\<open>main\<close> could return (\<open>Inl\<close>), and the calls made.
\<close>

definition mpp_main :: "mpp_library \<Rightarrow> (fault + c_int) \<times> event list" where
  "mpp_main lib =
     (let Mpp = dlopen_result lib in
      if Mpp = 0 then
        apfst Inr (fail Mpp ''Can not load mpp library'' [DlOpen ''librockchip_mpp.so''])
      else if dlsym_result lib ''mpp_create'' = 0 then
        apfst Inr (fail Mpp ''Can not bind MppCreate''
          [DlOpen ''librockchip_mpp.so'', DlSym ''mpp_create''])
      else if dlsym_result lib ''mpp_check_support_format'' = 0 then
        apfst Inr (fail Mpp ''Can not bind MppCheck''
          [DlOpen ''librockchip_mpp.so'', DlSym ''mpp_create'',
           DlSym ''mpp_check_support_format''])
      else if dlsym_result lib ''mpp_init'' = 0 then
        apfst Inr (fail Mpp ''Can not bind MppInit''
          [DlOpen ''librockchip_mpp.so'', DlSym ''mpp_create'',
           DlSym ''mpp_check_support_format'', DlSym ''mpp_init''])
      else if dlsym_result lib ''mpp_destroy'' = 0 then
        apfst Inr (fail Mpp ''Can not bind MppDestroy''
          [DlOpen ''librockchip_mpp.so'', DlSym ''mpp_create'',
           DlSym ''mpp_check_support_format'', DlSym ''mpp_init'', DlSym ''mpp_destroy''])
      else
        (case mpp_loop lib 0 0
                [DlOpen ''librockchip_mpp.so'', DlSym ''mpp_create'',
                 DlSym ''mpp_check_support_format'', DlSym ''mpp_init'',
                 DlSym ''mpp_destroy''] of
           (Inl crashed, trace) \<Rightarrow> (Inl crashed, trace)
         | (Inr supported, trace) \<Rightarrow>
             (Inr EXIT_SUCCESS,
              trace @
              [RecordValue ''SUPPORTED\<newline>%s\<newline>HWCODECS\<newline>%d\<newline>''
                 [ArgStr (if supported \<noteq> 0 then ''TRUE'' else ''FALSE''), ArgInt supported],
               DlClose Mpp,
               RecordFlush])))"

section \<open>The reporting channel\<close>

text \<open>
  Modelled from the spec: \<^verbatim>\<open>record_value\<close>, \<^verbatim>\<open>record_error\<close> and
  \<^verbatim>\<open>record_flush\<close> are declared in \<^verbatim>\<open>mozilla/GfxInfoUtils.h\<close>, which is not among
  the sources. The spec describes the channel as key/value text, each key on its own
  line followed by a value line: a SUPPORTED key with TRUE or FALSE, a HWCODECS key
  with a decimal bitmask, an ERROR key with a message. The calls in the sources are
  printf-style, so a record is the format with its conversions filled in:
  \<^verbatim>\<open>%s\<close> takes a string argument and \<^verbatim>\<open>%d\<close> an integer argument. A conversion
  applied to an argument of the other kind has no defined text (\<open>None\<close>).
\<close>

function decimal_nat :: "nat \<Rightarrow> string" where
  "decimal_nat n =
     (if n < 10 then [''0123456789'' ! n]
      else decimal_nat (n div 10) @ [''0123456789'' ! (n mod 10)])"
  by pat_completeness auto
termination
  by (relation "measure id") auto

definition decimal :: "c_int \<Rightarrow> string" where
  "decimal n = (if n < 0 then CHR ''-'' # decimal_nat (nat (- n)) else decimal_nat (nat n))"

fun format :: "string \<Rightarrow> arg list \<Rightarrow> string option" where
  "format [] args = Some []"
| "format [c] args = (if c = CHR ''%'' then None else Some [c])"
| "format (c # d # rest) args =
     (if c \<noteq> CHR ''%'' then map_option ((#) c) (format (d # rest) args)
      else if d = CHR ''s'' then
        (case args of
           ArgStr s # args' \<Rightarrow> map_option ((@) s) (format rest args')
         | _ \<Rightarrow> None)
      else if d = CHR ''d'' then
        (case args of
           ArgInt n # args' \<Rightarrow> map_option ((@) (decimal n)) (format rest args')
         | _ \<Rightarrow> None)
      else None)"

text \<open>
  Modelled from the spec: the text one call contributes to the channel (an ERROR key
  line, the formatted message and a newline for \<^verbatim>\<open>record_error\<close>; the formatted
  text for \<^verbatim>\<open>record_value\<close>), and the text of a whole run.
\<close>

fun record_text :: "event \<Rightarrow> string option" where
  "record_text (RecordValue fmt args) = format fmt args"
| "record_text (RecordError fmt args) =
     map_option (\<lambda>msg. ''ERROR\<newline>'' @ msg @ ''\<newline>'') (format fmt args)"
| "record_text _ = Some []"

fun channel_text :: "event list \<Rightarrow> string option" where
  "channel_text [] = Some []"
| "channel_text (e # es) =
     (case record_text e of
        None \<Rightarrow> None
      | Some t \<Rightarrow> map_option ((@) t) (channel_text es))"

section \<open>Observations on a run\<close>

text \<open>Classifiers of the calls of a trace, used to state what a run did.\<close>

fun is_release :: "event \<Rightarrow> bool" where
  "is_release (SysClose fd) = True"
| "is_release (DlClose handle) = True"
| "is_release e = False"

fun is_record :: "event \<Rightarrow> bool" where
  "is_record (RecordValue fmt args) = True"
| "is_record (RecordError fmt args) = True"
| "is_record e = False"

fun is_record_value :: "event \<Rightarrow> bool" where
  "is_record_value (RecordValue fmt args) = True"
| "is_record_value e = False"

text \<open>A result record: a value record whose key is not ERROR.\<close>

fun is_result :: "event \<Rightarrow> bool" where
  "is_result (RecordValue fmt args) = (fmt \<noteq> ''ERROR\<newline>%s\<newline>'')"
| "is_result e = False"

fun is_candidate_call :: "event \<Rightarrow> bool" where
  "is_candidate_call CallCreate = True"
| "is_candidate_call (CallCheck t c) = True"
| "is_candidate_call (CallInit ctx t c) = True"
| "is_candidate_call (CallReset mpi ctx) = True"
| "is_candidate_call (CallDestroy ctx) = True"
| "is_candidate_call e = False"

fun is_create :: "event \<Rightarrow> bool" where
  "is_create CallCreate = True"
| "is_create e = False"

fun is_reset :: "event \<Rightarrow> bool" where
  "is_reset (CallReset mpi ctx) = True"
| "is_reset e = False"

fun is_destroy :: "event \<Rightarrow> bool" where
  "is_destroy (CallDestroy ctx) = True"
| "is_destroy e = False"

text \<open>
  The four symbols \<^verbatim>\<open>main\<close> of mpptest looks up, in the order of its lookups;
  whether all are bound; the first one that is not; and the message the source
  passes to \<^verbatim>\<open>fail\<close> for each (it names the function pointer the symbol was
  meant for).
\<close>

definition required_symbols :: "string list" where
  "required_symbols =
     [''mpp_create'', ''mpp_check_support_format'', ''mpp_init'', ''mpp_destroy'']"

definition symbols_resolve :: "mpp_library \<Rightarrow> bool" where
  "symbols_resolve lib = list_all (\<lambda>name. dlsym_result lib name \<noteq> 0) required_symbols"

definition first_missing :: "mpp_library \<Rightarrow> string" where
  "first_missing lib = hd (filter (\<lambda>name. dlsym_result lib name = 0) required_symbols)"

definition bind_message :: "string \<Rightarrow> string" where
  "bind_message name =
     (if name = ''mpp_create'' then ''Can not bind MppCreate''
      else if name = ''mpp_check_support_format'' then ''Can not bind MppCheck''
      else if name = ''mpp_init'' then ''Can not bind MppInit''
      else ''Can not bind MppDestroy'')"

text \<open>
  Candidate \<open>i\<close> passes the three tests of the loop body: create, format check and
  init all return 0.
\<close>

definition candidate_succeeds :: "mpp_library \<Rightarrow> nat \<Rightarrow> bool" where
  "candidate_succeeds lib i =
     (case mpp_create lib i of
        (created, mppctx, mpi) \<Rightarrow>
          created = 0 \<and>
          mpp_check_support_format lib MPP_CTX_DEC (mppcodings ! i) = 0 \<and>
          mpp_init lib mppctx MPP_CTX_DEC (mppcodings ! i) = 0)"

text \<open>
  The operation table \<^verbatim>\<open>mpp_create\<close> stores in iteration \<open>i\<close> is not null and
  holds a \<^verbatim>\<open>reset\<close> entry.
\<close>

definition table_stored :: "mpp_library \<Rightarrow> nat \<Rightarrow> bool" where
  "table_stored lib i =
     (case mpp_create lib i of
        (created, mppctx, mpi) \<Rightarrow> mpi \<noteq> 0 \<and> reset_entry lib mpi \<noteq> 0)"

text \<open>
  No iteration reaches \<^verbatim>\<open>mpi->reset\<close> with a null table or a null entry: every
  candidate that passes the three tests has its table stored.
\<close>

definition reset_safe :: "mpp_library \<Rightarrow> bool" where
  "reset_safe lib =
     list_all (\<lambda>i. if candidate_succeeds lib i then table_stored lib i else True)
       [0 ..< length mppcodings]"

section \<open>Concrete environments\<close>

text \<open>
  A multi-planar stateful decoder: it opens, reports \<^verbatim>\<open>DEVICE_CAPS\<close>,
  \<^verbatim>\<open>STREAMING\<close> and \<^verbatim>\<open>VIDEO_M2M_MPLANE\<close>, lists NV12 on its capture queue and H264
  on its output queue, and answers -1 to every other format query.
\<close>

definition decoder_enum :: "u32 \<Rightarrow> u32 \<Rightarrow> c_int \<times> u32" where
  "decoder_enum aType index =
     (if aType = V4L2_BUF_TYPE_VIDEO_CAPTURE_MPLANE \<and> index = 0 then (0, V4L2_PIX_FMT_NV12)
      else if aType = V4L2_BUF_TYPE_VIDEO_OUTPUT_MPLANE \<and> index = 0 then (0, V4L2_PIX_FMT_H264)
      else (- 1, 0))"

definition decoder_device :: v4l2_device where
  "decoder_device =
     \<lparr>open_result = 3, open_error = [], querycap_result = 0,
      capabilities = 0x84204000, device_caps = 0x04204000, enum_fmt = decoder_enum\<rparr>"

text \<open>A queue that lists H264 at index 0 and NV12 at index 1.\<close>

definition mixed_enum :: "u32 \<Rightarrow> u32 \<Rightarrow> c_int \<times> u32" where
  "mixed_enum aType index =
     (if index = 0 then (0, V4L2_PIX_FMT_H264)
      else if index = 1 then (0, V4L2_PIX_FMT_NV12)
      else (- 1, 0))"

definition mixed_device :: v4l2_device where
  "mixed_device =
     \<lparr>open_result = 3, open_error = [], querycap_result = 0,
      capabilities = 0x84204000, device_caps = 0x04204000, enum_fmt = mixed_enum\<rparr>"

text \<open>A device node that cannot be opened.\<close>

definition missing_device :: v4l2_device where
  "missing_device =
     \<lparr>open_result = - 1, open_error = ''No such file or directory'',
      querycap_result = - 1, capabilities = 0, device_caps = 0,
      enum_fmt = (\<lambda>aType index. (- 1, 0))\<rparr>"

text \<open>
  A library that loads and binds, and fails every candidate in a different way:
  create fails for H264, the format check for VP8 and AV1, init for VP9.
\<close>

definition refusing_library :: mpp_library where
  "refusing_library =
     \<lparr>dlopen_result = 4096,
      dlsym_result = (\<lambda>name. 8192),
      mpp_create = (\<lambda>i. if i = 0 then (- 1, 0, 0) else (0, 100 + i, 200 + i)),
      mpp_check_support_format = (\<lambda>t c. if c = MPP_VIDEO_CodingVP9 then 0 else - 1),
      mpp_init = (\<lambda>ctx t c. - 1),
      reset_entry = (\<lambda>mpi. 12288)\<rparr>"

text \<open>
  A library that supports VP9 only: create always succeeds, the format check passes
  for H264 and VP9, init passes for VP9.
\<close>

definition vp9_library :: mpp_library where
  "vp9_library =
     \<lparr>dlopen_result = 4096,
      dlsym_result = (\<lambda>name. 8192),
      mpp_create = (\<lambda>i. (0, 100 + i, 200 + i)),
      mpp_check_support_format =
        (\<lambda>t c. if c = MPP_VIDEO_CodingVP9 \<or> c = MPP_VIDEO_CodingAVC then 0 else - 1),
      mpp_init = (\<lambda>ctx t c. if c = MPP_VIDEO_CodingVP9 then 0 else - 1),
      reset_entry = (\<lambda>mpi. 12288)\<rparr>"

text \<open>A library that loads but does not export \<^verbatim>\<open>mpp_init\<close>.\<close>

definition unbound_library :: mpp_library where
  "unbound_library =
     \<lparr>dlopen_result = 4096,
      dlsym_result = (\<lambda>name. if name = ''mpp_init'' then 0 else 8192),
      mpp_create = (\<lambda>i. (0, 100 + i, 200 + i)),
      mpp_check_support_format = (\<lambda>t c. 0),
      mpp_init = (\<lambda>ctx t c. 0),
      reset_entry = (\<lambda>mpi. 12288)\<rparr>"

text \<open>
  A library whose \<^verbatim>\<open>mpp_create\<close> returns 0 without storing an operation table,
  and whose format check and init pass for VP9 only.
\<close>

definition tableless_library :: mpp_library where
  "tableless_library =
     \<lparr>dlopen_result = 4096,
      dlsym_result = (\<lambda>name. 8192),
      mpp_create = (\<lambda>i. (0, 100 + i, 0)),
      mpp_check_support_format = (\<lambda>t c. if c = MPP_VIDEO_CodingVP9 then 0 else - 1),
      mpp_init = (\<lambda>ctx t c. 0),
      reset_entry = (\<lambda>mpi. 12288)\<rparr>"

text \<open>No library to load.\<close>

definition absent_library :: mpp_library where
  "absent_library =
     \<lparr>dlopen_result = 0,
      dlsym_result = (\<lambda>name. 0),
      mpp_create = (\<lambda>i. (- 1, 0, 0)),
      mpp_check_support_format = (\<lambda>t c. - 1),
      mpp_init = (\<lambda>ctx t c. - 1),
      reset_entry = (\<lambda>mpi. 12288)\<rparr>"

section \<open>Facts about the format enumeration\<close>

lemmas buf_type_defs =
  V4L2_BUF_TYPE_VIDEO_CAPTURE_def V4L2_BUF_TYPE_VIDEO_OUTPUT_def
  V4L2_BUF_TYPE_VIDEO_CAPTURE_MPLANE_def V4L2_BUF_TYPE_VIDEO_OUTPUT_MPLANE_def

lemmas cap_defs =
  V4L2_CAP_VIDEO_M2M_MPLANE_def V4L2_CAP_VIDEO_M2M_def
  V4L2_CAP_STREAMING_def V4L2_CAP_DEVICE_CAPS_def

lemma pix_fmt_values:
  "V4L2_PIX_FMT_H264 = 0x34363248"
  "V4L2_PIX_FMT_NV12 = 0x3231564E"
  "V4L2_PIX_FMT_YVU420 = 0x32315659"
  by (simp_all add: V4L2_PIX_FMT_H264_def V4L2_PIX_FMT_NV12_def V4L2_PIX_FMT_YVU420_def
      v4l2_fourcc_def)

text \<open>The two ways through one iteration of the loop.\<close>

lemma fmts_loop_body_fail:
  "fst (enum_fmt dev t i) < 0 \<Longrightarrow>
   fmts_loop_body dev t i s = Break (fst (enum_fmt dev t i))"
  by (simp add: fmts_loop_body_def case_prod_beta)

lemma fmts_loop_body_step:
  "\<not> fst (enum_fmt dev t i) < 0 \<Longrightarrow>
   fmts_loop_body dev t i s = Continue (i + 1) (fmt_switch s (snd (enum_fmt dev t i)))"
  by (simp add: fmts_loop_body_def case_prod_beta)

lemma fmts_loop_fail:
  "fst (enum_fmt dev t i) < 0 \<Longrightarrow> fmts_loop dev t i s = Some (fst (enum_fmt dev t i))"
  by (subst fmts_loop.simps) (simp add: fmts_loop_body_fail)

lemma fmts_loop_step:
  "\<not> fst (enum_fmt dev t i) < 0 \<Longrightarrow>
   fmts_loop dev t i s = fmts_loop dev t (i + 1) (fmt_switch s (snd (enum_fmt dev t i)))"
  by (subst fmts_loop.simps) (simp add: fmts_loop_body_step)

text \<open>
  Whatever the loop returns is negative: the only exit is the \<^verbatim>\<open>break\<close>, and the
  statement before it overwrites the accumulator with the failed query's result.
\<close>

lemma fmts_loop_negative:
  assumes "fmts_loop dev t i s = Some r"
  shows "r < 0"
proof (rule fmts_loop.raw_induct [where P = "\<lambda>dev t i s r. r < 0", OF _ assms])
  fix f dev t i s r
  assume IH: "\<And>dev t i s r. f dev t i s = Some r \<Longrightarrow> r < 0"
    and body: "(case fmts_loop_body dev t i s of
                  Break supported' \<Rightarrow> Some supported'
                | Continue index' supported' \<Rightarrow> f dev t index' supported') = Some r"
  show "r < 0"
  proof (cases "fst (enum_fmt dev t i) < 0")
    case True
    then show ?thesis using body by (simp add: fmts_loop_body_fail)
  next
    case False
    then have "f dev t (i + 1) (fmt_switch s (snd (enum_fmt dev t i))) = Some r"
      using body by (simp add: fmts_loop_body_step)
    then show ?thesis by (rule IH)
  qed
qed

lemma v4l2_supported_fmts_negative:
  "v4l2_supported_fmts dev aType = Some r \<Longrightarrow> r < 0"
  unfolding v4l2_supported_fmts_def by (rule fmts_loop_negative)

text \<open>
  The loop returns as soon as a query fails, with that query's result, whatever
  the formats seen before it: if the query at offset \<open>k\<close> from the start is the first
  to fail, the loop returns its result.
\<close>

lemma fmts_loop_first_failure:
  "fst (enum_fmt dev t (i + of_nat k)) < 0 \<Longrightarrow>
   (\<And>j. j < k \<Longrightarrow> \<not> fst (enum_fmt dev t (i + of_nat j)) < 0) \<Longrightarrow>
   fmts_loop dev t i s = Some (fst (enum_fmt dev t (i + of_nat k)))"
proof (induction k arbitrary: i s)
  case 0
  then show ?case by (simp add: fmts_loop_fail)
next
  case (Suc k)
  have shift: "i + 1 + of_nat j = i + of_nat (Suc j)" for j
    by simp
  have ok: "\<not> fst (enum_fmt dev t i) < 0"
    using Suc.prems(2) [of 0] by simp
  have "fmts_loop dev t (i + 1) (fmt_switch s (snd (enum_fmt dev t i)))
        = Some (fst (enum_fmt dev t ((i + 1) + of_nat k)))"
  proof (rule Suc.IH)
    show "fst (enum_fmt dev t (i + 1 + of_nat k)) < 0"
      using Suc.prems(1) unfolding shift .
  next
    fix j assume "j < k"
    then show "\<not> fst (enum_fmt dev t (i + 1 + of_nat j)) < 0"
      using Suc.prems(2) [of "Suc j"] unfolding shift by simp
  qed
  then show ?case using ok unfolding shift by (simp add: fmts_loop_step)
qed

text \<open>The queues of the concrete devices.\<close>

lemma decoder_capture_queue:
  "v4l2_supported_fmts decoder_device V4L2_BUF_TYPE_VIDEO_CAPTURE_MPLANE = Some (- 1)"
  unfolding v4l2_supported_fmts_def
  apply (subst fmts_loop_step)
   apply (simp add: decoder_device_def decoder_enum_def)
  apply (subst fmts_loop_fail)
   apply (simp add: decoder_device_def decoder_enum_def)
  apply (simp add: decoder_device_def decoder_enum_def)
  done

lemma decoder_single_plane_queue:
  "v4l2_supported_fmts decoder_device V4L2_BUF_TYPE_VIDEO_CAPTURE = Some (- 1)"
  unfolding v4l2_supported_fmts_def
  apply (subst fmts_loop_fail)
   apply (simp_all add: decoder_device_def decoder_enum_def buf_type_defs)
  done

lemma decoder_check_device:
  "v4l2_check_device decoder_device ''/dev/video10'' =
     Some [SysOpen ''/dev/video10'',
           RecordError ''V4L2 device %s does not support NV12 or YV12 capture formats''
             [ArgStr ''/dev/video10''],
           SysClose 3]"
  unfolding v4l2_check_device_def
  by (simp add: decoder_capture_queue Let_def autoRelease_def cap_defs)
    (simp add: decoder_device_def)

lemma missing_check_device:
  "v4l2_check_device missing_device ''/dev/video10'' =
     Some [SysOpen ''/dev/video10'',
           RecordError ''V4L2 failed to open device %s: %s''
             [ArgStr ''/dev/video10'', ArgStr ''No such file or directory'']]"
  by (simp add: v4l2_check_device_def missing_device_def Let_def autoRelease_def)

text \<open>What every returning run of \<^verbatim>\<open>v4l2_check_device\<close> has in common.\<close>

lemma v4l2_check_device_releases:
  "v4l2_check_device dev path = Some trace \<Longrightarrow>
   filter is_release trace = autoRelease (open_result dev)"
  unfolding v4l2_check_device_def Let_def
  by (auto simp: autoRelease_def split: if_splits option.splits
      dest: v4l2_supported_fmts_negative)

lemma v4l2_check_device_no_value:
  "v4l2_check_device dev path = Some trace \<Longrightarrow> filter is_record_value trace = []"
  unfolding v4l2_check_device_def Let_def
  by (auto simp: autoRelease_def split: if_splits option.splits
      dest: v4l2_supported_fmts_negative)

lemma v4l2_main_status:
  "v4l2_main opts dev = Some (status, trace) \<Longrightarrow> status = 0"
  by (auto simp: v4l2_main_def EXIT_SUCCESS_def split: option.splits)

text \<open>
  The enumeration returns as soon as some index has a failing query, and so does
  \<^verbatim>\<open>v4l2_check_device\<close>: it never gets past the capture queue.
\<close>

lemma fmts_loop_returns:
  "fst (enum_fmt dev t (i + of_nat k)) < 0 \<Longrightarrow> \<exists>r. fmts_loop dev t i s = Some r"
proof (induction k arbitrary: i s)
  case 0
  then show ?case by (simp add: fmts_loop_fail)
next
  case (Suc k)
  show ?case
  proof (cases "fst (enum_fmt dev t i) < 0")
    case True
    then show ?thesis by (simp add: fmts_loop_fail)
  next
    case False
    have shift: "i + 1 + of_nat k = i + of_nat (Suc k)"
      by simp
    have "fst (enum_fmt dev t (i + 1 + of_nat k)) < 0"
      using Suc.prems unfolding shift .
    then have "\<exists>r. fmts_loop dev t (i + 1) (fmt_switch s (snd (enum_fmt dev t i))) = Some r"
      by (rule Suc.IH)
    then show ?thesis using False by (simp add: fmts_loop_step)
  qed
qed

lemma v4l2_supported_fmts_returns:
  "fst (enum_fmt dev aType (of_nat k)) < 0 \<Longrightarrow> \<exists>r. v4l2_supported_fmts dev aType = Some r"
  unfolding v4l2_supported_fmts_def using fmts_loop_returns [of dev aType 0 k 0] by simp

lemma v4l2_supported_fmts_first_failure:
  "fst (enum_fmt dev aType (of_nat k)) < 0 \<Longrightarrow>
   (\<And>j. j < k \<Longrightarrow> \<not> fst (enum_fmt dev aType (of_nat j)) < 0) \<Longrightarrow>
   v4l2_supported_fmts dev aType = Some (fst (enum_fmt dev aType (of_nat k)))"
  unfolding v4l2_supported_fmts_def using fmts_loop_first_failure [of dev aType 0 k 0] by simp

lemma v4l2_check_device_returns:
  assumes "fst (enum_fmt dev V4L2_BUF_TYPE_VIDEO_CAPTURE (of_nat k)) < 0"
    and "fst (enum_fmt dev V4L2_BUF_TYPE_VIDEO_CAPTURE_MPLANE (of_nat k')) < 0"
  shows "\<exists>trace. v4l2_check_device dev path = Some trace"
proof -
  obtain r where r: "v4l2_supported_fmts dev V4L2_BUF_TYPE_VIDEO_CAPTURE = Some r"
    using v4l2_supported_fmts_returns [OF assms(1)] by blast
  obtain r' where r': "v4l2_supported_fmts dev V4L2_BUF_TYPE_VIDEO_CAPTURE_MPLANE = Some r'"
    using v4l2_supported_fmts_returns [OF assms(2)] by blast
  have "r < 0" "r' < 0"
    using r r' by (auto dest: v4l2_supported_fmts_negative)
  then show ?thesis
    unfolding v4l2_check_device_def Let_def using r r' by simp
qed

section \<open>Facts about the candidate loop and the channel\<close>

declare mpp_loop.simps [simp del]

text \<open>The three ways through the loop from index \<open>i\<close>.\<close>

lemma mpp_loop_done:
  "\<not> i < length mppcodings \<Longrightarrow> mpp_loop lib i s tr = (Inr s, tr)"
  by (subst mpp_loop.simps) simp

lemma mpp_loop_continue:
  "i < length mppcodings \<Longrightarrow> fst (mpp_loop_body lib i s) = Inr s' \<Longrightarrow>
   mpp_loop lib i s tr = mpp_loop lib (i + 1) s' (tr @ snd (mpp_loop_body lib i s))"
  by (subst mpp_loop.simps) (simp add: case_prod_beta)

lemma mpp_loop_crash:
  "i < length mppcodings \<Longrightarrow> fst (mpp_loop_body lib i s) = Inl crashed \<Longrightarrow>
   mpp_loop lib i s tr = (Inl crashed, tr @ snd (mpp_loop_body lib i s))"
  by (subst mpp_loop.simps) (simp add: case_prod_beta)

text \<open>
  The loop runs its body for the indices 0, 1, 2, 3 in this order and stops; a fault
  in an iteration stops it there.
\<close>

lemma mpp_loop_unroll:
  "mpp_loop lib 0 s tr =
     (let b0 = mpp_loop_body lib 0 s in
      case fst b0 of
        Inl crashed \<Rightarrow> (Inl crashed, tr @ snd b0)
      | Inr s1 \<Rightarrow>
     (let b1 = mpp_loop_body lib 1 s1 in
      case fst b1 of
        Inl crashed \<Rightarrow> (Inl crashed, tr @ snd b0 @ snd b1)
      | Inr s2 \<Rightarrow>
     (let b2 = mpp_loop_body lib 2 s2 in
      case fst b2 of
        Inl crashed \<Rightarrow> (Inl crashed, tr @ snd b0 @ snd b1 @ snd b2)
      | Inr s3 \<Rightarrow>
     (let b3 = mpp_loop_body lib 3 s3 in
      case fst b3 of
        Inl crashed \<Rightarrow> (Inl crashed, tr @ snd b0 @ snd b1 @ snd b2 @ snd b3)
      | Inr s4 \<Rightarrow> (Inr s4, tr @ snd b0 @ snd b1 @ snd b2 @ snd b3)))))"
proof -
  have n: "(0 :: nat) < length mppcodings" "(1 :: nat) < length mppcodings"
    "(2 :: nat) < length mppcodings" "(3 :: nat) < length mppcodings"
    "\<not> (4 :: nat) < length mppcodings"
    by (simp_all add: mppcodings_def)
  have step: "mpp_loop lib i s tr =
      (case fst (mpp_loop_body lib i s) of
         Inl crashed \<Rightarrow> (Inl crashed, tr @ snd (mpp_loop_body lib i s))
       | Inr s' \<Rightarrow> mpp_loop lib (i + 1) s' (tr @ snd (mpp_loop_body lib i s)))"
    if "i < length mppcodings" for i s tr
    using that by (subst mpp_loop.simps) (simp add: case_prod_beta)
  show ?thesis
    by (simp add: step [OF n(1)] step [OF n(2)] step [OF n(3)] step [OF n(4)]
        mpp_loop_done [OF n(5)] Let_def del: One_nat_def split: sum.splits)
qed

text \<open>What one iteration does, by how the candidate fares.\<close>

lemma body_failed:
  "\<not> candidate_succeeds lib i \<Longrightarrow> fst (mpp_loop_body lib i s) = Inr s"
  "\<not> candidate_succeeds lib i \<Longrightarrow> filter is_reset (snd (mpp_loop_body lib i s)) = []"
  "\<not> candidate_succeeds lib i \<Longrightarrow> filter is_destroy (snd (mpp_loop_body lib i s)) = []"
  by (auto simp: candidate_succeeds_def mpp_loop_body_def split: prod.splits)

lemma body_succeeded:
  "candidate_succeeds lib i \<Longrightarrow> table_stored lib i \<Longrightarrow>
     fst (mpp_loop_body lib i s) = Inr (s OR hwaccels ! i)"
  "candidate_succeeds lib i \<Longrightarrow> table_stored lib i \<Longrightarrow>
     filter is_reset (snd (mpp_loop_body lib i s)) =
       [CallReset (snd (snd (mpp_create lib i))) (fst (snd (mpp_create lib i)))]"
  "candidate_succeeds lib i \<Longrightarrow> table_stored lib i \<Longrightarrow>
     filter is_destroy (snd (mpp_loop_body lib i s)) =
       [CallDestroy (fst (snd (mpp_create lib i)))]"
  by (auto simp: candidate_succeeds_def table_stored_def mpp_loop_body_def split: prod.splits)

lemma body_crashed:
  "candidate_succeeds lib i \<Longrightarrow> \<not> table_stored lib i \<Longrightarrow>
     fst (mpp_loop_body lib i s) = Inl NullDereference"
  "candidate_succeeds lib i \<Longrightarrow> \<not> table_stored lib i \<Longrightarrow>
     filter is_reset (snd (mpp_loop_body lib i s)) = []"
  "candidate_succeeds lib i \<Longrightarrow> \<not> table_stored lib i \<Longrightarrow>
     filter is_destroy (snd (mpp_loop_body lib i s)) = []"
  by (auto simp: candidate_succeeds_def table_stored_def mpp_loop_body_def split: prod.splits)

lemma body_calls:
  "filter is_release (snd (mpp_loop_body lib i s)) = []"
  "filter is_record (snd (mpp_loop_body lib i s)) = []"
  "filter is_candidate_call (snd (mpp_loop_body lib i s)) = snd (mpp_loop_body lib i s)"
  "length (filter is_create (snd (mpp_loop_body lib i s))) = 1"
  by (auto simp: mpp_loop_body_def split: prod.splits)

lemma body_starts_with_create:
  "\<exists>more. snd (mpp_loop_body lib i s) = CallCreate # more"
  by (auto simp: mpp_loop_body_def split: prod.splits)

text \<open>The loop only appends to the calls made so far.\<close>

lemma mpp_loop_extends:
  "\<exists>more. snd (mpp_loop lib i s tr) = tr @ more"
proof (induction lib i s tr rule: mpp_loop.induct)
  case (1 lib i supported trace)
  show ?case
  proof (cases "i < length mppcodings")
    case False
    then show ?thesis by (simp add: mpp_loop_done)
  next
    case True
    show ?thesis
    proof (cases "fst (mpp_loop_body lib i supported)")
      case (Inl crashed)
      then show ?thesis using True by (simp add: mpp_loop_crash)
    next
      case (Inr s')
      have "\<exists>more. snd (mpp_loop lib (i + 1) s'
                (trace @ snd (mpp_loop_body lib i supported))) =
              (trace @ snd (mpp_loop_body lib i supported)) @ more"
        by (rule "1.IH" [of "Inr s'" "snd (mpp_loop_body lib i supported)" s'])
          (use True Inr in \<open>simp_all add: prod_eq_iff\<close>)
      then show ?thesis using True Inr by (auto simp: mpp_loop_continue)
    qed
  qed
qed

text \<open>When no iteration meets a null table the loop runs to its end.\<close>

lemma reset_safe_iff:
  "reset_safe lib =
     ((candidate_succeeds lib 0 \<longrightarrow> table_stored lib 0) \<and>
      (candidate_succeeds lib 1 \<longrightarrow> table_stored lib 1) \<and>
      (candidate_succeeds lib 2 \<longrightarrow> table_stored lib 2) \<and>
      (candidate_succeeds lib 3 \<longrightarrow> table_stored lib 3))"
proof -
  have "[0 ..< length mppcodings] = [0, 1, 2, 3]"
    by (simp add: mppcodings_def upt_rec)
  then show ?thesis by (simp add: reset_safe_def)
qed

lemma body_safe:
  "candidate_succeeds lib i \<longrightarrow> table_stored lib i \<Longrightarrow>
   \<exists>s'. fst (mpp_loop_body lib i s) = Inr s'"
  by (cases "candidate_succeeds lib i") (simp_all add: body_failed body_succeeded)

lemma mpp_loop_returns:
  assumes "reset_safe lib"
  shows "\<exists>supported. fst (mpp_loop lib 0 s tr) = Inr supported"
proof -
  have c: "candidate_succeeds lib 0 \<longrightarrow> table_stored lib 0"
    "candidate_succeeds lib 1 \<longrightarrow> table_stored lib 1"
    "candidate_succeeds lib 2 \<longrightarrow> table_stored lib 2"
    "candidate_succeeds lib 3 \<longrightarrow> table_stored lib 3"
    using assms by (simp_all add: reset_safe_iff)
  obtain s1 where s1: "fst (mpp_loop_body lib 0 s) = Inr s1"
    using body_safe [OF c(1)] by blast
  obtain s2 where s2: "fst (mpp_loop_body lib 1 s1) = Inr s2"
    using body_safe [OF c(2)] by blast
  obtain s3 where s3: "fst (mpp_loop_body lib 2 s2) = Inr s3"
    using body_safe [OF c(3)] by blast
  obtain s4 where s4: "fst (mpp_loop_body lib 3 s3) = Inr s4"
    using body_safe [OF c(4)] by blast
  show ?thesis
    using s1 s2 s3 s4 by (simp add: mpp_loop_unroll Let_def)
qed

lemma mpp_loop_calls:
  "filter is_release (snd (mpp_loop lib 0 s tr)) = filter is_release tr"
  "filter is_record (snd (mpp_loop lib 0 s tr)) = filter is_record tr"
  by (simp_all add: mpp_loop_unroll Let_def body_calls split: sum.splits)

text \<open>\<^verbatim>\<open>main\<close> once the library is loaded and the four symbols are bound.\<close>

lemma mpp_main_resolved:
  "dlopen_result lib \<noteq> 0 \<Longrightarrow> symbols_resolve lib \<Longrightarrow>
   mpp_main lib =
     (case mpp_loop lib 0 0
             [DlOpen ''librockchip_mpp.so'', DlSym ''mpp_create'',
              DlSym ''mpp_check_support_format'', DlSym ''mpp_init'',
              DlSym ''mpp_destroy''] of
        (Inl crashed, trace) \<Rightarrow> (Inl crashed, trace)
      | (Inr supported, trace) \<Rightarrow>
          (Inr EXIT_SUCCESS,
           trace @
           [RecordValue ''SUPPORTED\<newline>%s\<newline>HWCODECS\<newline>%d\<newline>''
              [ArgStr (if supported \<noteq> 0 then ''TRUE'' else ''FALSE''), ArgInt supported],
            DlClose (dlopen_result lib),
            RecordFlush]))"
  by (simp add: mpp_main_def symbols_resolve_def required_symbols_def Let_def)

text \<open>\<^verbatim>\<open>main\<close> when loading or binding fails: one of the five calls of \<^verbatim>\<open>fail\<close>.\<close>

lemma mpp_main_not_loaded:
  "dlopen_result lib = 0 \<Longrightarrow>
   mpp_main lib =
     (Inr EXIT_FAILURE,
      [DlOpen ''librockchip_mpp.so'',
       RecordValue ''ERROR\<newline>%s\<newline>'' [ArgStr ''Can not load mpp library''],
       RecordFlush])"
  by (simp add: mpp_main_def fail_def Let_def)

lemma mpp_main_unresolved_status:
  "dlopen_result lib \<noteq> 0 \<Longrightarrow> \<not> symbols_resolve lib \<Longrightarrow>
   fst (mpp_main lib) = Inr EXIT_FAILURE"
  by (auto simp: mpp_main_def fail_def Let_def symbols_resolve_def required_symbols_def)

lemma mpp_main_unresolved_results:
  "dlopen_result lib = 0 \<or> \<not> symbols_resolve lib \<Longrightarrow>
   filter is_result (snd (mpp_main lib)) = []"
  by (auto simp: mpp_main_def fail_def Let_def symbols_resolve_def required_symbols_def)

text \<open>A run of \<^verbatim>\<open>main\<close> that meets no null table returns.\<close>

lemma mpp_main_returns:
  assumes "reset_safe lib"
  shows "\<exists>status. fst (mpp_main lib) = Inr status"
proof (cases "dlopen_result lib = 0")
  case True
  then show ?thesis by (simp add: mpp_main_not_loaded)
next
  case loaded: False
  show ?thesis
  proof (cases "symbols_resolve lib")
    case False
    then show ?thesis using loaded by (simp add: mpp_main_unresolved_status)
  next
    case True
    obtain supported where "fst (mpp_loop lib 0 0
             [DlOpen ''librockchip_mpp.so'', DlSym ''mpp_create'',
              DlSym ''mpp_check_support_format'', DlSym ''mpp_init'',
              DlSym ''mpp_destroy'']) = Inr supported"
      using mpp_loop_returns [OF assms] by blast
    then show ?thesis using loaded True
      by (simp add: mpp_main_resolved case_prod_beta)
  qed
qed

text \<open>Only the records contribute text to the channel.\<close>

lemma record_text_other: "\<not> is_record e \<Longrightarrow> record_text e = Some []"
  by (cases e) simp_all

lemma channel_text_records: "channel_text trace = channel_text (filter is_record trace)"
proof (induction trace)
  case Nil
  show ?case by simp
next
  case (Cons e es)
  show ?case
  proof (cases "is_record e")
    case True
    then show ?thesis by (simp add: Cons.IH [symmetric] split: option.splits)
  next
    case False
    have "map_option ((@) []) x = x" for x :: "string option"
      by (cases x) simp_all
    then show ?thesis using False
      by (simp add: Cons.IH [symmetric] record_text_other)
  qed
qed

lemma decimal_small: "decimal 0 = ''0''" "decimal 16 = ''16''" "decimal 64 = ''64''"
  by (simp_all add: decimal_def)

lemma candidate_index_cases:
  "i < length mppcodings \<Longrightarrow> i = 0 \<or> i = 1 \<or> i = 2 \<or> i = 3"
  by (auto simp: mppcodings_def)

lemma refusing_library_candidates:
  "i < length mppcodings \<Longrightarrow> \<not> candidate_succeeds refusing_library i"
  by (drule candidate_index_cases)
    (auto simp: candidate_succeeds_def refusing_library_def mppcodings_def)

lemma vp9_library_candidates:
  "i < length mppcodings \<Longrightarrow>
   candidate_succeeds vp9_library i = (mppcodings ! i = MPP_VIDEO_CodingVP9)"
  by (drule candidate_index_cases)
    (auto simp: candidate_succeeds_def vp9_library_def mppcodings_def)

lemma library_symbols:
  "symbols_resolve refusing_library" "symbols_resolve vp9_library"
  "\<not> symbols_resolve unbound_library"
  by (simp_all add: symbols_resolve_def required_symbols_def refusing_library_def
      vp9_library_def unbound_library_def)

lemma bind_message_distinct: "inj_on bind_message (set required_symbols)"
  by (simp add: required_symbols_def bind_message_def)

text \<open>The runs of \<^verbatim>\<open>main\<close> of mpptest on the concrete libraries.\<close>

lemma library_tables:
  "table_stored vp9_library 2" "reset_safe vp9_library" "reset_safe refusing_library"
  "reset_safe unbound_library" "reset_safe absent_library"
  "candidate_succeeds tableless_library 2" "\<not> table_stored tableless_library 2"
  "\<not> reset_safe tableless_library"
  by (simp_all add: reset_safe_iff table_stored_def candidate_succeeds_def vp9_library_def
      refusing_library_def unbound_library_def absent_library_def tableless_library_def
      mppcodings_def)

lemma vp9_library_run:
  "mpp_main vp9_library =
     (Inr 0,
      [DlOpen ''librockchip_mpp.so'', DlSym ''mpp_create'',
       DlSym ''mpp_check_support_format'', DlSym ''mpp_init'', DlSym ''mpp_destroy'',
       CallCreate, CallCheck MPP_CTX_DEC MPP_VIDEO_CodingAVC,
       CallInit 100 MPP_CTX_DEC MPP_VIDEO_CodingAVC,
       CallCreate, CallCheck MPP_CTX_DEC MPP_VIDEO_CodingVP8,
       CallCreate, CallCheck MPP_CTX_DEC MPP_VIDEO_CodingVP9,
       CallInit 102 MPP_CTX_DEC MPP_VIDEO_CodingVP9, CallReset 202 102, CallDestroy 102,
       CallCreate, CallCheck MPP_CTX_DEC MPP_VIDEO_CodingAV1,
       RecordValue ''SUPPORTED\<newline>%s\<newline>HWCODECS\<newline>%d\<newline>''
         [ArgStr ''TRUE'', ArgInt 64],
       DlClose 4096, RecordFlush])"
  by (simp add: mpp_main_def required_symbols_def Let_def mpp_loop_unroll mpp_loop_body_def
      vp9_library_def mppcodings_def hwaccels_def CODEC_HW_VP9_def EXIT_SUCCESS_def)

lemma refusing_library_run:
  "mpp_main refusing_library =
     (Inr 0,
      [DlOpen ''librockchip_mpp.so'', DlSym ''mpp_create'',
       DlSym ''mpp_check_support_format'', DlSym ''mpp_init'', DlSym ''mpp_destroy'',
       CallCreate,
       CallCreate, CallCheck MPP_CTX_DEC MPP_VIDEO_CodingVP8,
       CallCreate, CallCheck MPP_CTX_DEC MPP_VIDEO_CodingVP9,
       CallInit 102 MPP_CTX_DEC MPP_VIDEO_CodingVP9,
       CallCreate, CallCheck MPP_CTX_DEC MPP_VIDEO_CodingAV1,
       RecordValue ''SUPPORTED\<newline>%s\<newline>HWCODECS\<newline>%d\<newline>''
         [ArgStr ''FALSE'', ArgInt 0],
       DlClose 4096, RecordFlush])"
  by (simp add: mpp_main_def required_symbols_def Let_def mpp_loop_unroll mpp_loop_body_def
      refusing_library_def mppcodings_def hwaccels_def EXIT_SUCCESS_def)

text \<open>
  With a null operation table the process dies in the VP9 iteration: no record, no
  \<^verbatim>\<open>dlclose\<close>, no exit status.
\<close>

lemma tableless_library_run:
  "mpp_main tableless_library =
     (Inl NullDereference,
      [DlOpen ''librockchip_mpp.so'', DlSym ''mpp_create'',
       DlSym ''mpp_check_support_format'', DlSym ''mpp_init'', DlSym ''mpp_destroy'',
       CallCreate, CallCheck MPP_CTX_DEC MPP_VIDEO_CodingAVC,
       CallCreate, CallCheck MPP_CTX_DEC MPP_VIDEO_CodingVP8,
       CallCreate, CallCheck MPP_CTX_DEC MPP_VIDEO_CodingVP9,
       CallInit 102 MPP_CTX_DEC MPP_VIDEO_CodingVP9])"
  by (simp add: mpp_main_def required_symbols_def Let_def mpp_loop_unroll mpp_loop_body_def
      tableless_library_def mppcodings_def hwaccels_def)

lemma refusing_library_loop_from_2:
  "mpp_loop refusing_library 2 0 [] =
     (Inr 0,
      [CallCreate, CallCheck MPP_CTX_DEC MPP_VIDEO_CodingVP9,
       CallInit 102 MPP_CTX_DEC MPP_VIDEO_CodingVP9,
       CallCreate, CallCheck MPP_CTX_DEC MPP_VIDEO_CodingAV1])"
  apply (subst mpp_loop.simps)
  apply (subst mpp_loop.simps)
  apply (subst mpp_loop.simps)
  apply (simp add: mpp_loop_body_def refusing_library_def mppcodings_def)
  done

section \<open>The claims about v4l2test\<close>

text \<open>
  C1. The spec states that for every V4L2 device whose capture queue lists at least
  one recognised uncompressed format (NV12 or YVU420) and whose output queue lists
  H264, \<^verbatim>\<open>v4l2_check_device\<close> reports success (SUPPORTED, TRUE) with a hardware-codec
  bitmask holding exactly the H264 bit. The code does not do this. For the decoder
  device, whose capture queue holds NV12 at index 0 and whose output queue holds H264
  at index 0, the run reports the error for a missing capture format and no success
  record: \<^verbatim>\<open>v4l2_supported_fmts\<close> returns the result of the failed query that ends
  the enumeration, which is negative, so the test \<^verbatim>\<open><= 0\<close> on the capture queue
  holds for every device.
\<close>

theorem decoder_device_reported_unsupported:
  "enum_fmt decoder_device V4L2_BUF_TYPE_VIDEO_CAPTURE_MPLANE 0 = (0, V4L2_PIX_FMT_NV12) \<and>
   enum_fmt decoder_device V4L2_BUF_TYPE_VIDEO_OUTPUT_MPLANE 0 = (0, V4L2_PIX_FMT_H264) \<and>
   v4l2_check_device decoder_device ''/dev/video10'' =
     Some [SysOpen ''/dev/video10'',
           RecordError ''V4L2 device %s does not support NV12 or YV12 capture formats''
             [ArgStr ''/dev/video10''],
           SysClose 3]"
  by (simp add: decoder_check_device) (simp add: decoder_device_def decoder_enum_def buf_type_defs)

text \<open>
  C2. The spec states that the enumeration in \<^verbatim>\<open>v4l2_supported_fmts\<close> walks a
  zero-based index, ends at the first failing \<^verbatim>\<open>VIDIOC_ENUM_FMT\<close> query, and treats
  that failure as the end of the list, not as an error, so that the formats recognised
  at earlier indices still determine the result. The enumeration does start at index 0
  and end at the first failing query (\<open>v4l2_supported_fmts_first_failure\<close>), but
  the result is that query's negative return value (\<open>fmts_loop_negative\<close>): on the
  decoder device the multi-planar capture queue, with NV12 recognised at index 0,
  gives -1, the same as the single-planar capture queue, which lists nothing. On the
  accumulator NV12 alone would have given 1.
\<close>

theorem recognised_formats_do_not_reach_result:
  "v4l2_supported_fmts decoder_device V4L2_BUF_TYPE_VIDEO_CAPTURE_MPLANE = Some (- 1) \<and>
   v4l2_supported_fmts decoder_device V4L2_BUF_TYPE_VIDEO_CAPTURE = Some (- 1) \<and>
   fmt_switch 0 (snd (enum_fmt decoder_device V4L2_BUF_TYPE_VIDEO_CAPTURE_MPLANE 0)) = 1"
  by (simp add: decoder_capture_queue decoder_single_plane_queue)
    (simp add: decoder_device_def decoder_enum_def fmt_switch_def pix_fmt_values)

text \<open>
  C10. In \<^verbatim>\<open>v4l2_supported_fmts\<close>, when a successfully enumerated descriptor has
  pixel format NV12 or YVU420 the accumulator is assigned the constant 1, it is not
  OR-ed: the iteration hands the value 1 to the next iteration whatever the
  accumulator held when it was entered, so an H264 bit set by an earlier descriptor
  is gone (bit 4 of 1 is clear), where an OR would have kept it. The loop then goes
  on from the next index with that accumulator.
\<close>

theorem uncompressed_format_overwrites_accumulator:
  assumes "enum_fmt dev aType index = (result, pixelformat)"
    and "\<not> result < 0"
    and "pixelformat = V4L2_PIX_FMT_NV12 \<or> pixelformat = V4L2_PIX_FMT_YVU420"
  shows "fmts_loop_body dev aType index supported = Continue (index + 1) 1 \<and>
         fmts_loop_body dev aType index (supported OR CODEC_HW_H264) =
           Continue (index + 1) 1 \<and>
         (1 :: c_int) AND CODEC_HW_H264 = 0 \<and>
         ((supported OR CODEC_HW_H264) OR 1) AND CODEC_HW_H264 = CODEC_HW_H264 \<and>
         fmts_loop dev aType index supported = fmts_loop dev aType (index + 1) 1"
proof -
  have one: "fmt_switch s pixelformat = 1" for s
    using assms(3) by (auto simp: fmt_switch_def pix_fmt_values)
  have body: "fmts_loop_body dev aType index s = Continue (index + 1) 1" for s
    using assms(1,2) by (simp add: fmts_loop_body_def one)
  have kept: "((supported OR CODEC_HW_H264) OR 1) AND CODEC_HW_H264 = CODEC_HW_H264"
    by (auto simp: bit_eq_iff bit_and_iff bit_or_iff)
  have loop: "fmts_loop dev aType index supported = fmts_loop dev aType (index + 1) 1"
    by (subst fmts_loop.simps) (simp add: body)
  have gone: "(1 :: c_int) AND CODEC_HW_H264 = 0"
    by (simp add: CODEC_HW_H264_def)
  show ?thesis
    using body [of supported] body [of "supported OR CODEC_HW_H264"] gone kept loop
    by blast
qed

theorem uncompressed_format_overwrites_accumulator_witness:
  "enum_fmt mixed_device V4L2_BUF_TYPE_VIDEO_OUTPUT 0 = (0, V4L2_PIX_FMT_H264) \<and>
   enum_fmt mixed_device V4L2_BUF_TYPE_VIDEO_OUTPUT 1 = (0, V4L2_PIX_FMT_NV12) \<and>
   fmts_loop_body mixed_device V4L2_BUF_TYPE_VIDEO_OUTPUT 0 0 = Continue 1 16 \<and>
   fmts_loop_body mixed_device V4L2_BUF_TYPE_VIDEO_OUTPUT 1 16 = Continue 2 1 \<and>
   fmts_loop mixed_device V4L2_BUF_TYPE_VIDEO_OUTPUT 1 16 =
     fmts_loop mixed_device V4L2_BUF_TYPE_VIDEO_OUTPUT 2 1"
proof -
  have e: "enum_fmt mixed_device V4L2_BUF_TYPE_VIDEO_OUTPUT 1 = (0, V4L2_PIX_FMT_NV12)"
    by (simp add: mixed_device_def mixed_enum_def)
  have n: "\<not> (0 :: c_int) < 0"
    by simp
  have p: "V4L2_PIX_FMT_NV12 = V4L2_PIX_FMT_NV12 \<or> V4L2_PIX_FMT_NV12 = V4L2_PIX_FMT_YVU420"
    by simp
  have h: "fmts_loop_body mixed_device V4L2_BUF_TYPE_VIDEO_OUTPUT 0 0 = Continue 1 16"
    by (simp add: fmts_loop_body_def mixed_device_def mixed_enum_def fmt_switch_def
        CODEC_HW_H264_def)
  show ?thesis
    using uncompressed_format_overwrites_accumulator [OF e n p, of 16] h
    by (simp add: mixed_device_def mixed_enum_def)
qed

section \<open>The claims about mpptest\<close>

text \<open>
  C5. For every library that loads and binds all four symbols and for which create,
  format check or init fails for each of the four candidates, the library prober
  runs to its end: it exits with the success status, its one record is SUPPORTED
  FALSE with HWCODECS 0 and not an error, and all four candidates were tried (four
  calls of create), so no failure of a candidate ended the loop.
\<close>

theorem all_candidates_failing_reports_false:
  assumes "dlopen_result lib \<noteq> 0"
    and "symbols_resolve lib"
    and "\<And>i. i < length mppcodings \<Longrightarrow> \<not> candidate_succeeds lib i"
  shows "fst (mpp_main lib) = Inr EXIT_SUCCESS \<and>
         filter is_record (snd (mpp_main lib)) =
           [RecordValue ''SUPPORTED\<newline>%s\<newline>HWCODECS\<newline>%d\<newline>''
              [ArgStr ''FALSE'', ArgInt 0]] \<and>
         channel_text (snd (mpp_main lib)) =
           Some ''SUPPORTED\<newline>FALSE\<newline>HWCODECS\<newline>0\<newline>'' \<and>
         length (filter is_create (snd (mpp_main lib))) = 4"
proof -
  have f: "\<not> candidate_succeeds lib 0" "\<not> candidate_succeeds lib 1"
    "\<not> candidate_succeeds lib 2" "\<not> candidate_succeeds lib 3"
    using assms(3) by (simp_all add: mppcodings_def)
  have r: "filter is_record (snd (mpp_main lib)) =
           [RecordValue ''SUPPORTED\<newline>%s\<newline>HWCODECS\<newline>%d\<newline>''
              [ArgStr ''FALSE'', ArgInt 0]]"
    using assms(1,2) f
    by (simp add: mpp_main_resolved mpp_loop_unroll Let_def body_failed body_calls)
  have t: "channel_text (snd (mpp_main lib)) =
           Some ''SUPPORTED\<newline>FALSE\<newline>HWCODECS\<newline>0\<newline>''"
    by (subst channel_text_records) (simp add: r decimal_small)
  have s: "fst (mpp_main lib) = Inr EXIT_SUCCESS"
    using assms(1,2) f
    by (simp add: mpp_main_resolved mpp_loop_unroll Let_def body_failed)
  have c: "length (filter is_create (snd (mpp_main lib))) = 4"
    using assms(1,2) f
    by (simp add: mpp_main_resolved mpp_loop_unroll Let_def body_failed body_calls)
  show ?thesis using s r t c by simp
qed

theorem all_candidates_failing_reports_false_witness:
  "dlopen_result refusing_library \<noteq> 0 \<and>
   symbols_resolve refusing_library \<and>
   list_all (\<lambda>i. \<not> candidate_succeeds refusing_library i) [0, 1, 2, 3] \<and>
   fst (mpp_main refusing_library) = Inr 0 \<and>
   channel_text (snd (mpp_main refusing_library)) =
     Some ''SUPPORTED\<newline>FALSE\<newline>HWCODECS\<newline>0\<newline>'' \<and>
   length (filter is_create (snd (mpp_main refusing_library))) = 4"
proof -
  have l: "dlopen_result refusing_library \<noteq> 0"
    by (simp add: refusing_library_def)
  have c: "list_all (\<lambda>i. \<not> candidate_succeeds refusing_library i) [0, 1, 2, 3]"
    by (simp add: refusing_library_candidates mppcodings_def)
  show ?thesis
    using all_candidates_failing_reports_false
      [OF l library_symbols(1) refusing_library_candidates] l c
    by (simp add: library_symbols EXIT_SUCCESS_def)
qed

text \<open>
  C6. For a library that loads and binds, and for which create, format check and
  init all succeed for the VP9 candidate and for no other of the four candidates
  (H264, VP8, VP9, AV1, tried in this order), the reported bitmask is exactly the VP9
  bit \<open>1 << 6\<close>, and the run calls reset exactly once and destroy exactly once, both
  on the context created for the VP9 candidate. A create that succeeds returns 0 and
  stores the operation table through which reset is called; a library whose create
  returns 0 and leaves the table null ends the process at that call
  (\<open>tableless_library_run\<close>) and is not a library whose create succeeds.
\<close>

theorem only_vp9_reports_vp9_bit:
  assumes "dlopen_result lib \<noteq> 0"
    and "symbols_resolve lib"
    and "\<And>i. i < length mppcodings \<Longrightarrow>
           candidate_succeeds lib i = (mppcodings ! i = MPP_VIDEO_CodingVP9)"
    and "table_stored lib 2"
  shows "fst (mpp_main lib) = Inr EXIT_SUCCESS \<and>
         filter is_record (snd (mpp_main lib)) =
           [RecordValue ''SUPPORTED\<newline>%s\<newline>HWCODECS\<newline>%d\<newline>''
              [ArgStr ''TRUE'', ArgInt (push_bit 6 1)]] \<and>
         channel_text (snd (mpp_main lib)) =
           Some ''SUPPORTED\<newline>TRUE\<newline>HWCODECS\<newline>64\<newline>'' \<and>
         filter is_reset (snd (mpp_main lib)) =
           [CallReset (snd (snd (mpp_create lib 2))) (fst (snd (mpp_create lib 2)))] \<and>
         filter is_destroy (snd (mpp_main lib)) =
           [CallDestroy (fst (snd (mpp_create lib 2)))] \<and>
         mppcodings ! 2 = MPP_VIDEO_CodingVP9 \<and> hwaccels ! 2 = CODEC_HW_VP9"
proof -
  have f: "\<not> candidate_succeeds lib 0" "\<not> candidate_succeeds lib 1"
    "candidate_succeeds lib 2" "\<not> candidate_succeeds lib 3"
    using assms(3) [of 0] assms(3) [of 1] assms(3) [of 2] assms(3) [of 3]
    by (simp_all add: mppcodings_def)
  have r: "filter is_record (snd (mpp_main lib)) =
           [RecordValue ''SUPPORTED\<newline>%s\<newline>HWCODECS\<newline>%d\<newline>''
              [ArgStr ''TRUE'', ArgInt (push_bit 6 1)]]"
    using assms(1,2,4) f
    by (simp add: mpp_main_resolved mpp_loop_unroll Let_def body_failed body_succeeded
        body_calls hwaccels_def CODEC_HW_VP9_def)
  have t: "channel_text (snd (mpp_main lib)) =
           Some ''SUPPORTED\<newline>TRUE\<newline>HWCODECS\<newline>64\<newline>''"
    by (subst channel_text_records) (simp add: r decimal_small)
  have s: "fst (mpp_main lib) = Inr EXIT_SUCCESS"
    using assms(1,2,4) f
    by (simp add: mpp_main_resolved mpp_loop_unroll Let_def body_failed body_succeeded)
  have x: "filter is_reset (snd (mpp_main lib)) =
           [CallReset (snd (snd (mpp_create lib 2))) (fst (snd (mpp_create lib 2)))]"
    using assms(1,2,4) f
    by (simp add: mpp_main_resolved mpp_loop_unroll Let_def body_failed body_succeeded)
  have d: "filter is_destroy (snd (mpp_main lib)) =
           [CallDestroy (fst (snd (mpp_create lib 2)))]"
    using assms(1,2,4) f
    by (simp add: mpp_main_resolved mpp_loop_unroll Let_def body_failed body_succeeded)
  show ?thesis using s r t x d by (simp add: mppcodings_def hwaccels_def)
qed

theorem only_vp9_reports_vp9_bit_witness:
  "dlopen_result vp9_library \<noteq> 0 \<and>
   symbols_resolve vp9_library \<and>
   map (candidate_succeeds vp9_library) [0, 1, 2, 3] = [False, False, True, False] \<and>
   mpp_create vp9_library 2 = (0, 102, 202) \<and>
   table_stored vp9_library 2 \<and>
   fst (mpp_main vp9_library) = Inr 0 \<and>
   channel_text (snd (mpp_main vp9_library)) =
     Some ''SUPPORTED\<newline>TRUE\<newline>HWCODECS\<newline>64\<newline>'' \<and>
   filter is_reset (snd (mpp_main vp9_library)) = [CallReset 202 102] \<and>
   filter is_destroy (snd (mpp_main vp9_library)) = [CallDestroy 102]"
proof -
  have l: "dlopen_result vp9_library \<noteq> 0"
    by (simp add: vp9_library_def)
  have c: "map (candidate_succeeds vp9_library) [0, 1, 2, 3] = [False, False, True, False]"
    by (simp add: vp9_library_candidates mppcodings_def)
  have m: "mpp_create vp9_library 2 = (0, 102, 202)"
    by (simp add: vp9_library_def)
  show ?thesis
    using only_vp9_reports_vp9_bit
      [OF l library_symbols(2) vp9_library_candidates library_tables(1)] l c
    by (simp add: library_symbols library_tables EXIT_SUCCESS_def m)
qed

text \<open>
  C7. For every run of the library prober in which the library loads and one of the
  four symbol lookups (\<^verbatim>\<open>mpp_create\<close>, \<^verbatim>\<open>mpp_check_support_format\<close>,
  \<^verbatim>\<open>mpp_init\<close>, \<^verbatim>\<open>mpp_destroy\<close>) fails, the run reports exactly one record, the
  ERROR record with the message for the first symbol that is missing, unloads the
  library handle, and probes no candidate. The message names the function pointer the
  symbol was looked up for, and the four messages differ (\<open>bind_message_distinct\<close>).
\<close>

theorem missing_symbol_reported_and_unloaded:
  assumes "dlopen_result lib \<noteq> 0"
    and "\<not> symbols_resolve lib"
  shows "fst (mpp_main lib) = Inr EXIT_FAILURE \<and>
         filter is_record (snd (mpp_main lib)) =
           [RecordValue ''ERROR\<newline>%s\<newline>'' [ArgStr (bind_message (first_missing lib))]] \<and>
         channel_text (snd (mpp_main lib)) =
           Some (''ERROR\<newline>'' @ bind_message (first_missing lib) @ ''\<newline>'') \<and>
         filter is_release (snd (mpp_main lib)) = [DlClose (dlopen_result lib)] \<and>
         filter is_candidate_call (snd (mpp_main lib)) = []"
proof -
  have r: "filter is_record (snd (mpp_main lib)) =
           [RecordValue ''ERROR\<newline>%s\<newline>'' [ArgStr (bind_message (first_missing lib))]]"
    using assms
    by (auto simp: mpp_main_def fail_def Let_def symbols_resolve_def required_symbols_def
        first_missing_def bind_message_def)
  have t: "channel_text (snd (mpp_main lib)) =
           Some (''ERROR\<newline>'' @ bind_message (first_missing lib) @ ''\<newline>'')"
    by (subst channel_text_records) (simp add: r)
  have c: "filter is_release (snd (mpp_main lib)) = [DlClose (dlopen_result lib)] \<and>
           filter is_candidate_call (snd (mpp_main lib)) = []"
    using assms
    by (auto simp: mpp_main_def fail_def Let_def symbols_resolve_def required_symbols_def)
  show ?thesis
    using assms r t c by (simp add: mpp_main_unresolved_status)
qed

theorem missing_symbol_reported_and_unloaded_witness:
  "dlopen_result unbound_library \<noteq> 0 \<and>
   \<not> symbols_resolve unbound_library \<and>
   first_missing unbound_library = ''mpp_init'' \<and>
   fst (mpp_main unbound_library) = Inr 1 \<and>
   filter is_record (snd (mpp_main unbound_library)) =
     [RecordValue ''ERROR\<newline>%s\<newline>'' [ArgStr ''Can not bind MppInit'']] \<and>
   channel_text (snd (mpp_main unbound_library)) =
     Some ''ERROR\<newline>Can not bind MppInit\<newline>'' \<and>
   filter is_release (snd (mpp_main unbound_library)) = [DlClose 4096] \<and>
   filter is_candidate_call (snd (mpp_main unbound_library)) = []"
proof -
  have l: "dlopen_result unbound_library \<noteq> 0"
    by (simp add: unbound_library_def)
  have m: "first_missing unbound_library = ''mpp_init''"
    by (simp add: first_missing_def required_symbols_def unbound_library_def)
  have h: "dlopen_result unbound_library = 4096"
    by (simp add: unbound_library_def)
  show ?thesis
    using missing_symbol_reported_and_unloaded [OF l library_symbols(3)] l m
    by (simp add: library_symbols EXIT_FAILURE_def bind_message_def h)
qed

text \<open>
  C8. In the candidate loop of the library prober, when create succeeds and the
  format check or init then fails, the iteration makes the calls up to the failing
  one and no call of destroy (the context it created stays undestroyed), leaves the
  bitmask as it was, and the loop goes on: when a candidate is left, the calls of the
  next candidate's iteration, entered with the unchanged bitmask and beginning with
  its create, follow in the run; after the last candidate the loop ends with the
  unchanged bitmask. In every iteration a call of destroy is made exactly on the
  full-success path, where create, format check and init returned 0 and the
  operation table is there for the reset before it.
\<close>

theorem failed_candidate_is_skipped_undestroyed:
  assumes "i < length mppcodings"
    and "mpp_create lib i = (0, mppctx, mpi)"
    and "mpp_check_support_format lib MPP_CTX_DEC (mppcodings ! i) \<noteq> 0 \<or>
         mpp_init lib mppctx MPP_CTX_DEC (mppcodings ! i) \<noteq> 0"
  shows "mpp_loop_body lib i supported =
           (Inr supported,
            if mpp_check_support_format lib MPP_CTX_DEC (mppcodings ! i) \<noteq> 0
            then [CallCreate, CallCheck MPP_CTX_DEC (mppcodings ! i)]
            else [CallCreate, CallCheck MPP_CTX_DEC (mppcodings ! i),
                  CallInit mppctx MPP_CTX_DEC (mppcodings ! i)]) \<and>
         filter is_destroy (snd (mpp_loop_body lib i supported)) = [] \<and>
         mpp_loop lib i supported trace =
           mpp_loop lib (i + 1) supported (trace @ snd (mpp_loop_body lib i supported)) \<and>
         (if i + 1 < length mppcodings
          then \<exists>more rest.
                 snd (mpp_loop_body lib (i + 1) supported) = CallCreate # more \<and>
                 snd (mpp_loop lib i supported trace) =
                   trace @ snd (mpp_loop_body lib i supported) @
                   snd (mpp_loop_body lib (i + 1) supported) @ rest
          else mpp_loop lib i supported trace =
                 (Inr supported, trace @ snd (mpp_loop_body lib i supported))) \<and>
         (filter is_destroy (snd (mpp_loop_body lib j s)) \<noteq> []) =
           (candidate_succeeds lib j \<and> table_stored lib j)"
proof -
  let ?calls = "snd (mpp_loop_body lib i supported)"
  have n: "\<not> candidate_succeeds lib i"
    using assms(2,3) by (auto simp: candidate_succeeds_def)
  have b: "mpp_loop_body lib i supported =
           (Inr supported,
            if mpp_check_support_format lib MPP_CTX_DEC (mppcodings ! i) \<noteq> 0
            then [CallCreate, CallCheck MPP_CTX_DEC (mppcodings ! i)]
            else [CallCreate, CallCheck MPP_CTX_DEC (mppcodings ! i),
                  CallInit mppctx MPP_CTX_DEC (mppcodings ! i)])"
    using assms(2,3) by (auto simp: mpp_loop_body_def)
  have c: "mpp_loop lib i supported trace = mpp_loop lib (i + 1) supported (trace @ ?calls)"
    using mpp_loop_continue [OF assms(1), of lib supported supported trace] n
    by (simp add: body_failed)
  have d: "(filter is_destroy (snd (mpp_loop_body lib j s)) \<noteq> []) =
           (candidate_succeeds lib j \<and> table_stored lib j)"
  proof (cases "candidate_succeeds lib j")
    case False
    then show ?thesis by (simp add: body_failed)
  next
    case True
    then show ?thesis
      by (cases "table_stored lib j") (simp_all add: body_succeeded body_crashed)
  qed
  have e: "if i + 1 < length mppcodings
          then \<exists>more rest.
                 snd (mpp_loop_body lib (i + 1) supported) = CallCreate # more \<and>
                 snd (mpp_loop lib i supported trace) =
                   trace @ ?calls @ snd (mpp_loop_body lib (i + 1) supported) @ rest
          else mpp_loop lib i supported trace = (Inr supported, trace @ ?calls)"
  proof (cases "i + 1 < length mppcodings")
    case False
    then show ?thesis using c by (simp add: mpp_loop_done)
  next
    case True
    let ?next = "mpp_loop_body lib (i + 1) supported"
    obtain more where m: "snd ?next = CallCreate # more"
      using body_starts_with_create [of lib "i + 1" supported] by blast
    have "\<exists>rest. snd (mpp_loop lib (i + 1) supported (trace @ ?calls)) =
            trace @ ?calls @ snd ?next @ rest"
    proof (cases "fst ?next")
      case (Inl crashed)
      then show ?thesis using True by (simp add: mpp_loop_crash)
    next
      case (Inr s')
      obtain rest where "snd (mpp_loop lib (i + 1 + 1) s' ((trace @ ?calls) @ snd ?next)) =
          ((trace @ ?calls) @ snd ?next) @ rest"
        using mpp_loop_extends [of lib "i + 1 + 1" s' "(trace @ ?calls) @ snd ?next"]
        by blast
      then show ?thesis
        using mpp_loop_continue [OF True Inr, of "trace @ ?calls"] by simp
    qed
    then show ?thesis using True c m by simp
  qed
  show ?thesis
    using b c d e unfolding b by simp
qed

theorem failed_candidate_is_skipped_undestroyed_witness:
  "(2 :: nat) < length mppcodings \<and> (2 :: nat) + 1 < length mppcodings \<and>
   mpp_create refusing_library 2 = (0, 102, 202) \<and>
   mpp_check_support_format refusing_library MPP_CTX_DEC (mppcodings ! 2) = 0 \<and>
   mpp_init refusing_library 102 MPP_CTX_DEC (mppcodings ! 2) = - 1 \<and>
   mpp_loop_body refusing_library 2 0 =
     (Inr 0, [CallCreate, CallCheck MPP_CTX_DEC MPP_VIDEO_CodingVP9,
              CallInit 102 MPP_CTX_DEC MPP_VIDEO_CodingVP9]) \<and>
   mpp_loop_body refusing_library 3 0 =
     (Inr 0, [CallCreate, CallCheck MPP_CTX_DEC MPP_VIDEO_CodingAV1]) \<and>
   mpp_loop refusing_library 2 0 [] =
     (Inr 0, [CallCreate, CallCheck MPP_CTX_DEC MPP_VIDEO_CodingVP9,
              CallInit 102 MPP_CTX_DEC MPP_VIDEO_CodingVP9,
              CallCreate, CallCheck MPP_CTX_DEC MPP_VIDEO_CodingAV1]) \<and>
   candidate_succeeds vp9_library 2 \<and> table_stored vp9_library 2 \<and>
   filter is_destroy (snd (mpp_loop_body vp9_library 2 0)) = [CallDestroy 102]"
proof -
  have i: "(2 :: nat) < length mppcodings" "(2 :: nat) + 1 < length mppcodings"
    by (simp_all add: mppcodings_def)
  have m: "mpp_create refusing_library 2 = (0, 102, 202)"
    by (simp add: refusing_library_def)
  have k: "mpp_check_support_format refusing_library MPP_CTX_DEC (mppcodings ! 2) = 0"
    by (simp add: refusing_library_def mppcodings_def)
  have f: "mpp_init refusing_library 102 MPP_CTX_DEC (mppcodings ! 2) = - 1"
    by (simp add: refusing_library_def)
  have a: "mpp_check_support_format refusing_library MPP_CTX_DEC (mppcodings ! 2) \<noteq> 0 \<or>
           mpp_init refusing_library 102 MPP_CTX_DEC (mppcodings ! 2) \<noteq> 0"
    using f by simp
  have b: "mpp_loop_body refusing_library 3 0 =
           (Inr 0, [CallCreate, CallCheck MPP_CTX_DEC MPP_VIDEO_CodingAV1])"
    by (simp add: mpp_loop_body_def refusing_library_def mppcodings_def)
  have v: "candidate_succeeds vp9_library 2"
    by (simp add: vp9_library_candidates mppcodings_def)
  have w: "filter is_destroy (snd (mpp_loop_body vp9_library 2 0)) = [CallDestroy 102]"
    by (simp add: mpp_loop_body_def vp9_library_def mppcodings_def)
  have c: "mppcodings ! 2 = MPP_VIDEO_CodingVP9"
    by (simp add: mppcodings_def)
  show ?thesis
    using failed_candidate_is_skipped_undestroyed [OF i(1) m a, of 0 "[]" 2 0]
      i m k f b v w c refusing_library_loop_from_2 library_tables(1)
    by simp
qed

section \<open>The claims about both probers\<close>

text \<open>
  C9. On every path of each prober on which it returns, early failure returns
  included, the top-level handle it acquired is released exactly once. The release
  calls of a run of \<^verbatim>\<open>v4l2_check_device\<close> that returns are the one \<^verbatim>\<open>close\<close> of the
  descriptor that \<^verbatim>\<open>open\<close> returned (none when \<^verbatim>\<open>open\<close> failed and there is no
  descriptor), and the release calls of a run of \<^verbatim>\<open>main\<close> of mpptest that returns
  are the one \<^verbatim>\<open>dlclose\<close> of the handle that \<^verbatim>\<open>dlopen\<close> returned (none when loading
  failed and there is no handle). The device prober returns whenever the capture
  queues have an index at which the format query fails; the library prober returns
  whenever no candidate that passes create, format check and init has a null
  operation table. A run that does not return (an enumeration that never fails, a
  null table at the reset) is no path to a return.
\<close>

theorem top_level_handle_released_once:
  "(v4l2_check_device dev path = Some trace \<longrightarrow>
      filter is_release trace =
        (if 0 \<le> open_result dev then [SysClose (open_result dev)] else [])) \<and>
   (fst (enum_fmt dev V4L2_BUF_TYPE_VIDEO_CAPTURE (of_nat k)) < 0 \<and>
    fst (enum_fmt dev V4L2_BUF_TYPE_VIDEO_CAPTURE_MPLANE (of_nat k')) < 0 \<longrightarrow>
      (\<exists>returned. v4l2_check_device dev path = Some returned)) \<and>
   (fst (mpp_main lib) = Inr status \<longrightarrow>
      filter is_release (snd (mpp_main lib)) =
        (if dlopen_result lib \<noteq> 0 then [DlClose (dlopen_result lib)] else [])) \<and>
   (reset_safe lib \<longrightarrow> (\<exists>returned. fst (mpp_main lib) = Inr returned))"
proof -
  have t: "fst (enum_fmt dev V4L2_BUF_TYPE_VIDEO_CAPTURE (of_nat k)) < 0 \<and>
    fst (enum_fmt dev V4L2_BUF_TYPE_VIDEO_CAPTURE_MPLANE (of_nat k')) < 0 \<longrightarrow>
      (\<exists>returned. v4l2_check_device dev path = Some returned)"
    using v4l2_check_device_returns [of dev k k' path] by simp
  have v: "v4l2_check_device dev path = Some trace \<longrightarrow>
      filter is_release trace =
        (if 0 \<le> open_result dev then [SysClose (open_result dev)] else [])"
    using v4l2_check_device_releases [of dev path trace] by (simp add: autoRelease_def)
  have m: "fst (mpp_main lib) = Inr status \<longrightarrow>
      filter is_release (snd (mpp_main lib)) =
        (if dlopen_result lib \<noteq> 0 then [DlClose (dlopen_result lib)] else [])"
  proof (cases "dlopen_result lib = 0")
    case True
    then show ?thesis by (simp add: mpp_main_not_loaded)
  next
    case loaded: False
    show ?thesis
    proof (cases "symbols_resolve lib")
      case True
      then show ?thesis using loaded
        by (auto simp: mpp_main_resolved mpp_loop_calls case_prod_beta split: sum.splits)
    next
      case False
      then show ?thesis using loaded
        by (auto simp: mpp_main_def fail_def Let_def symbols_resolve_def
            required_symbols_def)
    qed
  qed
  have r: "reset_safe lib \<longrightarrow> (\<exists>returned. fst (mpp_main lib) = Inr returned)"
    using mpp_main_returns [of lib] by simp
  show ?thesis using v t m r by simp
qed

theorem top_level_handle_released_once_witness:
  "fst (enum_fmt decoder_device V4L2_BUF_TYPE_VIDEO_CAPTURE (of_nat 0)) < 0 \<and>
   fst (enum_fmt decoder_device V4L2_BUF_TYPE_VIDEO_CAPTURE_MPLANE (of_nat 1)) < 0 \<and>
   filter is_release
     [SysOpen ''/dev/video10'',
      RecordError ''V4L2 device %s does not support NV12 or YV12 capture formats''
        [ArgStr ''/dev/video10''],
      SysClose 3] = [SysClose 3] \<and>
   v4l2_check_device decoder_device ''/dev/video10'' =
     Some [SysOpen ''/dev/video10'',
           RecordError ''V4L2 device %s does not support NV12 or YV12 capture formats''
             [ArgStr ''/dev/video10''],
           SysClose 3] \<and>
   reset_safe vp9_library \<and> fst (mpp_main vp9_library) = Inr 0 \<and>
   filter is_release (snd (mpp_main vp9_library)) = [DlClose 4096] \<and>
   reset_safe unbound_library \<and> fst (mpp_main unbound_library) = Inr 1 \<and>
   filter is_release (snd (mpp_main unbound_library)) = [DlClose 4096] \<and>
   reset_safe absent_library \<and> fst (mpp_main absent_library) = Inr 1 \<and>
   filter is_release (snd (mpp_main absent_library)) = []"
proof -
  have ul: "dlopen_result unbound_library \<noteq> 0"
    by (simp add: unbound_library_def)
  have u: "fst (mpp_main unbound_library) = Inr 1"
    using mpp_main_unresolved_status [OF ul library_symbols(3)]
    by (simp add: EXIT_FAILURE_def)
  have a: "fst (mpp_main absent_library) = Inr 1"
    by (simp add: mpp_main_not_loaded absent_library_def EXIT_FAILURE_def)
  have l: "dlopen_result vp9_library = 4096" "dlopen_result unbound_library = 4096"
    "dlopen_result absent_library = 0"
    by (simp_all add: vp9_library_def unbound_library_def absent_library_def)
  show ?thesis
    using top_level_handle_released_once
        [where dev = decoder_device and path = "''/dev/video10''" and k = 0 and k' = 1
          and trace = "[SysOpen ''/dev/video10'',
            RecordError ''V4L2 device %s does not support NV12 or YV12 capture formats''
              [ArgStr ''/dev/video10''],
            SysClose 3]" and lib = vp9_library and status = 0]
      top_level_handle_released_once
        [where dev = missing_device and path = "[]" and trace = "[]" and k = 0 and k' = 0
          and lib = unbound_library and status = 1]
      top_level_handle_released_once
        [where dev = missing_device and path = "[]" and trace = "[]" and k = 0 and k' = 0
          and lib = absent_library and status = 1]
      u a l
    by (simp add: decoder_check_device vp9_library_run library_tables)
      (simp add: decoder_device_def decoder_enum_def buf_type_defs)
qed

text \<open>
  C4. The spec states that every run of either prober in which a required resource
  could not be acquired (the device node fails to open, the library fails to load) or
  a required symbol could not be resolved exits with a non-zero status, and every run
  that completed the probe and emitted a result exits with status 0. For the device
  prober the first part does not hold: \<^verbatim>\<open>v4l2_check_device\<close> returns nothing, and
  \<^verbatim>\<open>main\<close> of v4l2test returns \<^verbatim>\<open>EXIT_SUCCESS\<close> after it whatever it recorded. A
  device node that fails to open gives the ERROR record and exit status 0.
\<close>

theorem open_failure_exits_with_zero:
  "open_result missing_device < 0 \<and>
   v4l2_main [(CHR ''d'', ''/dev/video10'')] missing_device =
     Some (0,
       [SysOpen ''/dev/video10'',
        RecordError ''V4L2 failed to open device %s: %s''
          [ArgStr ''/dev/video10'', ArgStr ''No such file or directory''],
        RecordFlush])"
  by (simp add: v4l2_main_def missing_check_device EXIT_SUCCESS_def)
    (simp add: missing_device_def)

text \<open>
  C4 as the code has it: the claim with the device node taken out of its first part.
  Every run of the library prober in which the library fails to load or a required
  symbol fails to resolve exits with the non-zero status \<^verbatim>\<open>EXIT_FAILURE\<close>. Every run
  of either prober that ran to completion and emitted a result exits with status 0:
  for the library prober, a run that returns and has recorded a result record; for
  the device prober, every run that returns. A run of the device prober whose device
  node fails to open is among these: it records the open error, flushes and exits
  with status 0.
\<close>

theorem exit_status_of_the_probers:
  "(dlopen_result failing = 0 \<or> \<not> symbols_resolve failing \<longrightarrow>
      fst (mpp_main failing) = Inr EXIT_FAILURE \<and> EXIT_FAILURE \<noteq> 0) \<and>
   (fst (mpp_main completed) = Inr returned \<and>
    filter is_result (snd (mpp_main completed)) \<noteq> [] \<longrightarrow> returned = 0) \<and>
   (v4l2_main opts dev = Some (status, trace) \<longrightarrow> status = 0) \<and>
   (open_result unopened < 0 \<and> parse_options opts' None = Some path \<longrightarrow>
      v4l2_main opts' unopened =
        Some (0,
          [SysOpen path,
           RecordError ''V4L2 failed to open device %s: %s''
             [ArgStr path, ArgStr (open_error unopened)],
           RecordFlush]))"
proof -
  have a: "dlopen_result failing = 0 \<or> \<not> symbols_resolve failing \<longrightarrow>
      fst (mpp_main failing) = Inr EXIT_FAILURE \<and> EXIT_FAILURE \<noteq> 0"
    by (cases "dlopen_result failing = 0")
      (auto simp: mpp_main_not_loaded mpp_main_unresolved_status EXIT_FAILURE_def)
  have b: "fst (mpp_main completed) = Inr returned \<and>
    filter is_result (snd (mpp_main completed)) \<noteq> [] \<longrightarrow> returned = 0"
  proof (cases "dlopen_result completed = 0 \<or> \<not> symbols_resolve completed")
    case True
    then show ?thesis by (simp add: mpp_main_unresolved_results)
  next
    case False
    then show ?thesis
      by (auto simp: mpp_main_resolved case_prod_beta EXIT_SUCCESS_def split: sum.splits)
  qed
  have c: "v4l2_main opts dev = Some (status, trace) \<longrightarrow> status = 0"
    using v4l2_main_status [of opts dev status trace] by simp
  have d: "open_result unopened < 0 \<and> parse_options opts' None = Some path \<longrightarrow>
      v4l2_main opts' unopened =
        Some (0,
          [SysOpen path,
           RecordError ''V4L2 failed to open device %s: %s''
             [ArgStr path, ArgStr (open_error unopened)],
           RecordFlush])"
    by (simp add: v4l2_main_def v4l2_check_device_def Let_def autoRelease_def
        EXIT_SUCCESS_def)
  show ?thesis using a b c d by simp
qed

theorem exit_status_of_the_probers_witness:
  "dlopen_result absent_library = 0 \<and> fst (mpp_main absent_library) = Inr 1 \<and>
   dlopen_result unbound_library \<noteq> 0 \<and> \<not> symbols_resolve unbound_library \<and>
   fst (mpp_main unbound_library) = Inr 1 \<and>
   filter is_result (snd (mpp_main vp9_library)) =
     [RecordValue ''SUPPORTED\<newline>%s\<newline>HWCODECS\<newline>%d\<newline>''
        [ArgStr ''TRUE'', ArgInt 64]] \<and>
   fst (mpp_main vp9_library) = Inr 0 \<and>
   open_result missing_device < 0 \<and>
   parse_options [(CHR ''d'', ''/dev/video10'')] None = Some ''/dev/video10'' \<and>
   v4l2_main [(CHR ''d'', ''/dev/video10'')] missing_device =
     Some (0,
       [SysOpen ''/dev/video10'',
        RecordError ''V4L2 failed to open device %s: %s''
          [ArgStr ''/dev/video10'', ArgStr ''No such file or directory''],
        RecordFlush])"
proof -
  have l: "dlopen_result absent_library = 0" "dlopen_result unbound_library \<noteq> 0"
    by (simp_all add: absent_library_def unbound_library_def)
  have o: "open_result missing_device < 0"
    "open_error missing_device = ''No such file or directory''"
    by (simp_all add: missing_device_def)
  show ?thesis
    using exit_status_of_the_probers
        [where failing = absent_library and completed = vp9_library and returned = 0
          and opts = "[(CHR ''d'', ''/dev/video10'')]" and dev = missing_device
          and status = 0
          and trace = "[SysOpen ''/dev/video10'',
              RecordError ''V4L2 failed to open device %s: %s''
                [ArgStr ''/dev/video10'', ArgStr ''No such file or directory''],
              RecordFlush]"
          and unopened = missing_device and opts' = "[(CHR ''d'', ''/dev/video10'')]"
          and path = "''/dev/video10''"]
      exit_status_of_the_probers
        [where failing = unbound_library and completed = vp9_library and returned = 0
          and opts = "[]" and dev = missing_device and status = 0 and trace = "[PrintUsage]"
          and unopened = missing_device and opts' = "[(CHR ''d'', ''/dev/video10'')]"
          and path = "''/dev/video10''"]
      l o
    by (simp add: library_symbols EXIT_FAILURE_def vp9_library_run)
qed

end
